theory Spec2Isabelle
  imports Complex_Main
begin

section \<open>Tensors, errors and the autograd flags\<close>

text \<open>
  The renderer of \<^verbatim>\<open>gaussian_renderer/__init__.py\<close> merges two Gaussian clouds and calls
  a rasterizer. Tensors are nested lists indexed by their first dimension: a rank-2 tensor
  is a list of rows, a rank-3 tensor a list of matrices. Stored entries are real numbers;
  an entry computed by a division can also be NaN (0/0), so computed colours and
  directions are \<open>scalar\<close>s.
\<close>

type_synonym matrix = "real list list"
type_synonym tensor3 = "real list list list"

datatype scalar = NaN | Num real

type_synonym smatrix = "scalar list list"

text \<open>
  What torch raises inside \<^verbatim>\<open>render\<close>: sizes that do not match in \<^verbatim>\<open>cat\<close> or in a
  broadcast; a \<^verbatim>\<open>view\<close> to a shape the tensor does not have; \<^verbatim>\<open>retain_grad\<close> on a
  tensor that does not require grad. \<open>CollaboratorError\<close> is any exception of the
  rasterizer, of \<^verbatim>\<open>eval_sh\<close> or of a cloud's accessor.
\<close>

datatype error = SizeMismatch | InvalidView | GradNotRequired | CollaboratorError

definition and_then :: "error + 'a \<Rightarrow> ('a \<Rightarrow> error + 'b) \<Rightarrow> error + 'b" where
  "and_then m f = (case m of Inl e \<Rightarrow> Inl e | Inr x \<Rightarrow> f x)"

fun sequence :: "(error + 'a) list \<Rightarrow> error + 'a list" where
  "sequence [] = Inr []"
| "sequence (m # ms) =
     (case m of Inl e \<Rightarrow> Inl e
      | Inr x \<Rightarrow> (case sequence ms of Inl e \<Rightarrow> Inl e | Inr xs \<Rightarrow> Inr (x # xs)))"

text \<open>
  \<^verbatim>\<open>torch.cat([a, b], dim=0)\<close>: the rows of \<open>a\<close>, then the rows of \<open>b\<close>. Every dimension
  but the first has to agree; \<open>shp\<close> reads those dimensions off a row. A tensor without
  rows is a list without elements and agrees with every shape.
\<close>

definition cat :: "('a \<Rightarrow> 's) \<Rightarrow> 'a list \<Rightarrow> 'a list \<Rightarrow> error + 'a list" where
  "cat shp a b =
     (if list_all (\<lambda>x. list_all (\<lambda>y. shp x = shp y) b) a then Inr (a @ b)
      else Inl SizeMismatch)"

abbreviation cat2 :: "'a list list \<Rightarrow> 'a list list \<Rightarrow> error + 'a list list" where
  "cat2 \<equiv> cat length"

abbreviation cat3 :: "'a list list list \<Rightarrow> 'a list list list \<Rightarrow> error + 'a list list list" where
  "cat3 \<equiv> cat (map length)"

text \<open>
  Broadcasting of a binary operation along one dimension: equal sizes pair up, a size of 1
  is repeated, anything else raises.
\<close>

definition broadcast :: "('a \<Rightarrow> 'b \<Rightarrow> error + 'c) \<Rightarrow> 'a list \<Rightarrow> 'b list \<Rightarrow> error + 'c list" where
  "broadcast f a b =
     (if length a = length b then sequence (map2 f a b)
      else if length b = 1 then sequence (map (\<lambda>x. f x (hd b)) a)
      else if length a = 1 then sequence (map (\<lambda>y. f (hd a) y) b)
      else Inl SizeMismatch)"

definition row_sub :: "real list \<Rightarrow> real list \<Rightarrow> error + real list" where
  "row_sub = broadcast (\<lambda>x y. Inr (x - y))"

definition tensor_sub :: "matrix \<Rightarrow> matrix \<Rightarrow> error + matrix" where
  "tensor_sub = broadcast row_sub"

text \<open>\<^verbatim>\<open>c.repeat(n, 1)\<close> of a rank-1 tensor \<open>c\<close>: \<open>n\<close> rows, each a copy of \<open>c\<close>.\<close>

definition repeat_rows :: "real list \<Rightarrow> nat \<Rightarrow> matrix" where
  "repeat_rows c n = replicate n c"

text \<open>
  \<^verbatim>\<open>d / d.norm(dim=1, keepdim=True)\<close>: every row is divided by its Euclidean norm. A row
  of norm 0 has only zero entries, and 0/0 is NaN.
\<close>

definition norm_row :: "real list \<Rightarrow> real" where
  "norm_row r = sqrt (sum_list (map (\<lambda>x. x * x) r))"

definition normalize_row :: "real list \<Rightarrow> scalar list" where
  "normalize_row r =
     (let n = norm_row r in map (\<lambda>x. if n = 0 then NaN else Num (x / n)) r)"

fun scalar_add :: "scalar \<Rightarrow> real \<Rightarrow> scalar" where
  "scalar_add NaN c = NaN"
| "scalar_add (Num x) c = Num (x + c)"

text \<open>\<^verbatim>\<open>torch.clamp_min\<close> on one entry; a NaN stays a NaN.\<close>

fun clamp_min :: "scalar \<Rightarrow> real \<Rightarrow> scalar" where
  "clamp_min NaN m = NaN"
| "clamp_min (Num x) m = Num (max x m)"

text \<open>
  \<^verbatim>\<open>t.transpose(1, 2)\<close> of a rank-3 tensor transposes the matrix of every primitive. It
  moves no entry in memory: the transposed tensor of shape \<open>(n, w, c)\<close> keeps the strides
  \<open>(c * w, 1, w)\<close> of the tensor of shape \<open>(n, c, w)\<close> it comes from. That tensor, the
  features of a cloud, is taken to be contiguous, as the result of a \<^verbatim>\<open>torch.cat\<close> is.
\<close>

definition transpose_1_2 :: "tensor3 \<Rightarrow> tensor3" where
  "transpose_1_2 t = map transpose t"

text \<open>
  \<^verbatim>\<open>t.view(-1, 3, k)\<close> keeps the entries in their order and regroups them: rows of \<open>k\<close>
  entries, three rows to a matrix. \<open>flat3\<close> is the entries in their order, \<open>chunks\<close> the
  regrouping, \<open>dims3\<close> the shape of a tensor.
\<close>

definition flat3 :: "'a list list list \<Rightarrow> 'a list" where
  "flat3 t = concat (concat t)"

definition chunks :: "nat \<Rightarrow> 'a list \<Rightarrow> 'a list list" where
  "chunks k xs = map (\<lambda>i. take k (drop (i * k) xs)) [0 ..< length xs div k]"

definition dims3 :: "'a list list list \<Rightarrow> nat \<times> nat \<times> nat" where
  "dims3 t =
     (length t,
      (case t of [] \<Rightarrow> 0 | m # _ \<Rightarrow> length m),
      (case t of [] \<Rightarrow> 0 | m # _ \<Rightarrow> (case m of [] \<Rightarrow> 0 | r # _ \<Rightarrow> length r)))"

text \<open>
  A view shares the memory of its tensor, so torch allows it only when the strides of the
  tensor fit the new shape. \<open>view_chunks\<close> is that test as torch runs it. It goes through
  the dimensions of the tensor from the last to the first, each with its size and its
  stride, and gathers them into chunks that lie evenly in memory: a chunk ends before a
  dimension of a size other than 1 whose stride is not the number of entries of the chunk
  times the stride the chunk started with. At the end of a chunk \<open>consume\<close> takes
  dimensions of the new shape, from the last one on, while they hold fewer entries than
  the chunk or have size 1; they have to hold exactly the entries of the chunk. No
  dimension of the new shape may be left over. (A tensor without dimensions is viewed
  in any case; \<^verbatim>\<open>render\<close> views tensors of three.)
\<close>

fun consume :: "nat \<Rightarrow> nat \<Rightarrow> nat list \<Rightarrow> nat \<times> nat list" where
  "consume tensor_numel view_numel [] = (view_numel, [])"
| "consume tensor_numel view_numel (d # ds) =
     (if view_numel < tensor_numel \<or> d = 1 then consume tensor_numel (view_numel * d) ds
      else (view_numel, d # ds))"

fun view_chunks :: "nat \<Rightarrow> nat \<Rightarrow> (nat \<times> nat) list \<Rightarrow> nat list \<Rightarrow> bool" where
  "view_chunks chunk_base_stride tensor_numel [] vs = True"
| "view_chunks chunk_base_stride tensor_numel [(sz, st)] vs =
     (case consume (tensor_numel * sz) 1 vs of (view_numel, vs') \<Rightarrow>
        view_numel = tensor_numel * sz \<and> vs' = [])"
| "view_chunks chunk_base_stride tensor_numel ((sz, st) # (sz', st') # rest) vs =
     (if sz' \<noteq> 1 \<and> st' \<noteq> tensor_numel * sz * chunk_base_stride then
        (case consume (tensor_numel * sz) 1 vs of (view_numel, vs') \<Rightarrow>
           view_numel = tensor_numel * sz \<and> view_chunks st' 1 ((sz', st') # rest) vs')
      else view_chunks chunk_base_stride (tensor_numel * sz) ((sz', st') # rest) vs)"

text \<open>
  \<^verbatim>\<open>.view(-1, 3, k)\<close> of a transposed tensor \<open>t\<close>, as on line 86. It raises when \<open>k = 0\<close>,
  which leaves the \<open>-1\<close> ambiguous, when \<open>3 * k\<close> does not divide the number of entries,
  and when the strides do not fit. A tensor without entries is viewed whatever its
  strides. The features of a cloud are \<open>(n, k, 3)\<close>, transposed \<open>(n, 3, k)\<close>, and the view
  returns them as they are; torch also views a few other transposed tensors, features of
  shape \<open>(n, 1, 3)\<close> with \<open>k\<close> dividing \<open>n\<close> for instance, and regroups them.
\<close>

definition view_m1_3 :: "int \<Rightarrow> tensor3 \<Rightarrow> error + tensor3" where
  "view_m1_3 k t =
     (let numel = length (flat3 t); kk = nat k in
      if k \<le> 0 \<or> numel mod (3 * kk) \<noteq> 0 then Inl InvalidView
      else if numel = 0 then Inr []
      else (case dims3 t of (n, w, c) \<Rightarrow>
        if view_chunks w 1 [(c, w), (w, 1), (n, c * w)] [kk, 3, numel div (3 * kk)]
        then Inr (chunks 3 (chunks kk (flat3 t)))
        else Inl InvalidView))"

text \<open>
  The screen-space placeholders carry the flags of autograd. \<open>grad_mode\<close> is whether the
  caller runs with gradient recording on (off under \<^verbatim>\<open>torch.no_grad()\<close>).
\<close>

record grad_tensor =
  entries :: matrix
  requires_grad :: bool
  is_leaf :: bool
  retains_grad :: bool

definition zeros_like :: "matrix \<Rightarrow> bool \<Rightarrow> grad_tensor" where
  "zeros_like t rg =
     \<lparr>entries = map (map (\<lambda>_. 0)) t, requires_grad = rg, is_leaf = True,
      retains_grad = False\<rparr>"

definition add_const :: "bool \<Rightarrow> grad_tensor \<Rightarrow> real \<Rightarrow> grad_tensor" where
  "add_const grad_mode t c =
     \<lparr>entries = map (map (\<lambda>x. x + c)) (entries t),
      requires_grad = (grad_mode \<and> requires_grad t),
      is_leaf = (\<not> (grad_mode \<and> requires_grad t)),
      retains_grad = False\<rparr>"

definition retain_grad :: "grad_tensor \<Rightarrow> error + grad_tensor" where
  "retain_grad t =
     (if \<not> requires_grad t then Inl GradNotRequired
      else if is_leaf t then Inr t
      else Inr (t\<lparr>retains_grad := True\<rparr>))"

definition cat_grad :: "bool \<Rightarrow> grad_tensor \<Rightarrow> grad_tensor \<Rightarrow> error + grad_tensor" where
  "cat_grad grad_mode a b =
     and_then (cat2 (entries a) (entries b)) (\<lambda>es.
       Inr \<lparr>entries = es,
            requires_grad = (grad_mode \<and> (requires_grad a \<or> requires_grad b)),
            is_leaf = (\<not> (grad_mode \<and> (requires_grad a \<or> requires_grad b))),
            retains_grad = False\<rparr>)"

section \<open>The data of a render call\<close>

text \<open>
  \<^verbatim>\<open>GaussianModel\<close> is declared outside this file; \<^verbatim>\<open>render\<close> reads the attributes
  \<^verbatim>\<open>_xyz\<close> and \<^verbatim>\<open>_opacity\<close> (here \<open>raw_xyz\<close>, \<open>raw_opacity\<close>), the properties
  \<^verbatim>\<open>get_xyz\<close>, \<^verbatim>\<open>get_scaling\<close>, \<^verbatim>\<open>get_rotation\<close>, \<^verbatim>\<open>get_features\<close>, the method
  \<^verbatim>\<open>get_covariance\<close> and the two SH degrees.
\<close>

record GaussianModel =
  raw_xyz :: matrix
  raw_opacity :: matrix
  get_xyz :: matrix
  get_scaling :: matrix
  get_rotation :: matrix
  get_features :: tensor3
  get_covariance :: "real \<Rightarrow> error + matrix"
  active_sh_degree :: int
  max_sh_degree :: int

record camera =
  FoVx :: real
  FoVy :: real
  image_height :: int
  image_width :: int
  world_view_transform :: matrix
  full_proj_transform :: matrix
  camera_center :: "real list"

record pipeline =
  convert_SHs_python :: bool
  compute_cov3D_python :: bool
  debug :: bool

record GaussianRasterizationSettings =
  rs_image_height :: int
  rs_image_width :: int
  tanfovx :: real
  tanfovy :: real
  bg :: "real list"
  scale_modifier :: real
  viewmatrix :: matrix
  projmatrix :: matrix
  sh_degree :: int
  campos :: "real list"
  prefiltered :: bool
  rs_debug :: bool

text \<open>The keyword arguments of the rasterizer call; \<open>None\<close> is Python's \<^verbatim>\<open>None\<close>.\<close>

record raster_args =
  means3D :: matrix
  means2D :: grad_tensor
  shs :: "tensor3 option"
  colors_precomp :: "smatrix option"
  opacities :: matrix
  scales :: "matrix option"
  rotations :: "matrix option"
  cov3D_precomp :: "matrix option"

text \<open>The dictionary \<^verbatim>\<open>render\<close> returns; \<open>rendered_image\<close> is its key \<^verbatim>\<open>"render"\<close>.\<close>

record render_result =
  rendered_image :: tensor3
  viewspace_points :: grad_tensor
  visibility_filter :: "bool list"
  radii :: "int list"

text \<open>
  What a call runs against: the autograd mode, and the two functions imported from
  other modules, \<^verbatim>\<open>eval_sh\<close> and the rasterizer (which returns the image and the radii).
\<close>

record runtime =
  grad_mode :: bool
  eval_sh :: "int \<Rightarrow> tensor3 \<Rightarrow> smatrix \<Rightarrow> error + smatrix"
  rasterizer :: "GaussianRasterizationSettings \<Rightarrow> raster_args \<Rightarrow> error + (tensor3 \<times> int list)"

text \<open>The effects of a call that a caller can tell the order of.\<close>

datatype event = RetainGrad bool | Rasterize

section \<open>render\<close>

text \<open>
  Lines 26 to 30: the dynamic cloud's placeholder, and the request to retain its gradient
  inside \<^verbatim>\<open>try\<close>/\<^verbatim>\<open>except: pass\<close>. The event records whether the request went through.
  The device and the dtype of a tensor are not modelled.
\<close>

definition screenspace_points :: "runtime \<Rightarrow> GaussianModel \<Rightarrow> grad_tensor \<times> event" where
  "screenspace_points ctx pc =
     (let t = add_const (grad_mode ctx) (zeros_like (get_xyz pc) True) 0
      in case retain_grad t of
           Inl _ \<Rightarrow> (t, RetainGrad False)
         | Inr t' \<Rightarrow> (t', RetainGrad True))"

text \<open>Line 32: the secondary cloud's placeholder.\<close>

definition screenspace_points_pre :: "runtime \<Rightarrow> GaussianModel \<Rightarrow> grad_tensor" where
  "screenspace_points_pre ctx prePC =
     add_const (grad_mode ctx) (zeros_like (get_xyz prePC) False) 0"

text \<open>Lines 40 to 56; \<^verbatim>\<open>int(...)\<close> of an integer field is the field.\<close>

definition raster_settings ::
  "camera \<Rightarrow> GaussianModel \<Rightarrow> pipeline \<Rightarrow> real list \<Rightarrow> real \<Rightarrow> GaussianRasterizationSettings" where
  "raster_settings viewpoint_camera pc pipe bg_color scaling_modifier =
     \<lparr>rs_image_height = image_height viewpoint_camera,
      rs_image_width = image_width viewpoint_camera,
      tanfovx = tan (FoVx viewpoint_camera * 0.5),
      tanfovy = tan (FoVy viewpoint_camera * 0.5),
      bg = bg_color,
      scale_modifier = scaling_modifier,
      viewmatrix = world_view_transform viewpoint_camera,
      projmatrix = full_proj_transform viewpoint_camera,
      sh_degree = active_sh_degree pc,
      campos = camera_center viewpoint_camera,
      prefiltered = False,
      rs_debug = debug pipe\<rparr>"

text \<open>Lines 69 to 78: the scales, the rotations and the precomputed covariance.\<close>

definition merged_geometry ::
  "pipeline \<Rightarrow> GaussianModel \<Rightarrow> GaussianModel \<Rightarrow> real \<Rightarrow>
   error + (matrix option \<times> matrix option \<times> matrix option)" where
  "merged_geometry pipe pc prePC scaling_modifier =
     (if compute_cov3D_python pipe then
        and_then (get_covariance prePC scaling_modifier) (\<lambda>preCov.
        and_then (get_covariance pc scaling_modifier) (\<lambda>pcCov.
        and_then (cat2 pcCov preCov) (\<lambda>cov. Inr (None, None, Some cov))))
      else
        and_then (cat2 (get_scaling pc) (get_scaling prePC)) (\<lambda>s.
        and_then (cat2 (get_rotation pc) (get_rotation prePC)) (\<lambda>r.
        Inr (Some s, Some r, None))))"

text \<open>Lines 86 to 88.\<close>

definition sh_reshaped :: "GaussianModel \<Rightarrow> error + tensor3" where
  "sh_reshaped c =
     view_m1_3 ((max_sh_degree c + 1) ^ 2) (transpose_1_2 (get_features c))"

definition shs_view :: "GaussianModel \<Rightarrow> GaussianModel \<Rightarrow> error + tensor3" where
  "shs_view pc prePC =
     and_then (sh_reshaped pc) (\<lambda>pcShs.
     and_then (sh_reshaped prePC) (\<lambda>preShs. cat3 pcShs preShs))"

text \<open>Lines 91 to 94.\<close>

definition dir_pp_of :: "camera \<Rightarrow> GaussianModel \<Rightarrow> error + matrix" where
  "dir_pp_of viewpoint_camera c =
     tensor_sub (get_xyz c)
       (repeat_rows (camera_center viewpoint_camera) (length (get_features c)))"

definition dir_pp_normalized :: "camera \<Rightarrow> GaussianModel \<Rightarrow> GaussianModel \<Rightarrow> error + smatrix" where
  "dir_pp_normalized viewpoint_camera pc prePC =
     and_then (dir_pp_of viewpoint_camera pc) (\<lambda>pc_dir_pp.
     and_then (dir_pp_of viewpoint_camera prePC) (\<lambda>pre_dir_pp.
     and_then (cat2 pc_dir_pp pre_dir_pp) (\<lambda>dir_pp. Inr (map normalize_row dir_pp))))"

text \<open>Lines 82 to 105: the pair \<open>(shs, colors_precomp)\<close>.\<close>

definition merged_colour ::
  "runtime \<Rightarrow> camera \<Rightarrow> pipeline \<Rightarrow> GaussianModel \<Rightarrow> GaussianModel \<Rightarrow> smatrix option \<Rightarrow>
   error + (tensor3 option \<times> smatrix option)" where
  "merged_colour ctx viewpoint_camera pipe pc prePC override_color =
     (case override_color of
        None \<Rightarrow>
          (if convert_SHs_python pipe then
             and_then (shs_view pc prePC) (\<lambda>S.
             and_then (dir_pp_normalized viewpoint_camera pc prePC) (\<lambda>v.
             and_then (eval_sh ctx (active_sh_degree pc) S v) (\<lambda>sh2rgb.
             Inr (None, Some (map (map (\<lambda>x. clamp_min (scalar_add x 0.5) 0.0)) sh2rgb)))))
           else
             and_then (cat3 (get_features pc) (get_features prePC)) (\<lambda>s.
             Inr (Some s, None)))
      | Some c \<Rightarrow> Inr (None, Some c))"

text \<open>Everything up to line 106: the arguments of the rasterizer call.\<close>

definition rasterizer_inputs ::
  "runtime \<Rightarrow> camera \<Rightarrow> GaussianModel \<Rightarrow> GaussianModel \<Rightarrow> pipeline \<Rightarrow> real \<Rightarrow>
   smatrix option \<Rightarrow> error + raster_args" where
  "rasterizer_inputs ctx viewpoint_camera pc prePC pipe scaling_modifier override_color =
     and_then (cat2 (raw_xyz pc) (raw_xyz prePC)) (\<lambda>all_xyz.
     and_then (cat2 (raw_opacity pc) (raw_opacity prePC)) (\<lambda>all_opacity.
     and_then (cat_grad (grad_mode ctx) (fst (screenspace_points ctx pc))
                 (screenspace_points_pre ctx prePC)) (\<lambda>screenspace_points_all.
     and_then (merged_geometry pipe pc prePC scaling_modifier) (\<lambda>(sc, ro, cov).
     and_then (merged_colour ctx viewpoint_camera pipe pc prePC override_color) (\<lambda>(sh, col).
     Inr \<lparr>means3D = all_xyz, means2D = screenspace_points_all, shs = sh,
          colors_precomp = col, opacities = all_opacity, scales = sc, rotations = ro,
          cov3D_precomp = cov\<rparr>)))))"

text \<open>
  The whole function: the events in the order they happen, and the exception raised or
  the dictionary returned.
\<close>

definition render_steps ::
  "runtime \<Rightarrow> camera \<Rightarrow> GaussianModel \<Rightarrow> GaussianModel \<Rightarrow> pipeline \<Rightarrow> real list \<Rightarrow> real \<Rightarrow>
   smatrix option \<Rightarrow> event list \<times> (error + render_result)" where
  "render_steps ctx viewpoint_camera pc prePC pipe bg_color scaling_modifier override_color =
     (let (sp, ev) = screenspace_points ctx pc in
      case rasterizer_inputs ctx viewpoint_camera pc prePC pipe scaling_modifier override_color of
        Inl e \<Rightarrow> ([ev], Inl e)
      | Inr a \<Rightarrow>
          (case rasterizer ctx
                  (raster_settings viewpoint_camera pc pipe bg_color scaling_modifier) a of
             Inl e \<Rightarrow> ([ev, Rasterize], Inl e)
           | Inr (img, rad) \<Rightarrow>
               ([ev, Rasterize],
                Inr \<lparr>rendered_image = img, viewspace_points = sp,
                     visibility_filter = map (\<lambda>r. 0 < r) rad, radii = rad\<rparr>)))"

definition render ::
  "runtime \<Rightarrow> camera \<Rightarrow> GaussianModel \<Rightarrow> GaussianModel \<Rightarrow> pipeline \<Rightarrow> real list \<Rightarrow> real \<Rightarrow>
   smatrix option \<Rightarrow> error + render_result" where
  "render ctx viewpoint_camera pc prePC pipe bg_color scaling_modifier override_color =
     snd (render_steps ctx viewpoint_camera pc prePC pipe bg_color scaling_modifier override_color)"

section \<open>Sizes and shapes of a cloud\<close>

text \<open>
  A cloud of \<open>n\<close> primitives: every per-primitive field has \<open>n\<close> rows, and so has the
  covariance the cloud derives for the scaling modifier of the call.
\<close>

definition cloud_size :: "real \<Rightarrow> GaussianModel \<Rightarrow> nat \<Rightarrow> bool" where
  "cloud_size scaling_modifier c n \<longleftrightarrow>
     length (raw_xyz c) = n \<and> length (raw_opacity c) = n \<and> length (get_xyz c) = n \<and>
     length (get_scaling c) = n \<and> length (get_rotation c) = n \<and>
     length (get_features c) = n \<and>
     (case get_covariance c scaling_modifier of Inl _ \<Rightarrow> True | Inr m \<Rightarrow> length m = n)"

text \<open>A rank-3 tensor whose matrices all have \<open>c\<close> rows of \<open>w\<close> entries.\<close>

definition has_shape3 :: "'a list list list \<Rightarrow> nat \<Rightarrow> nat \<Rightarrow> bool" where
  "has_shape3 t c w \<longleftrightarrow> list_all (\<lambda>m. length m = c \<and> list_all (\<lambda>r. length r = w) m) t"


text \<open>
  The shapes of the fields of a cloud that \<^verbatim>\<open>render\<close> is written for: positions, scales
  and covariances of 3, 3 and 6 entries, quaternions of 4, one opacity, and features of
  \<open>(max_sh_degree + 1)\<^sup>2\<close> coefficients by 3 channels per primitive, which is what the
  transposition and the view of line 86 expect.
\<close>

definition rows_of_width :: "nat \<Rightarrow> 'a list list \<Rightarrow> bool" where
  "rows_of_width w m \<longleftrightarrow> list_all (\<lambda>r. length r = w) m"

definition well_shaped :: "real \<Rightarrow> GaussianModel \<Rightarrow> bool" where
  "well_shaped scaling_modifier c \<longleftrightarrow>
     rows_of_width 3 (raw_xyz c) \<and> rows_of_width 1 (raw_opacity c) \<and>
     rows_of_width 3 (get_xyz c) \<and> rows_of_width 3 (get_scaling c) \<and>
     rows_of_width 4 (get_rotation c) \<and>
     length (get_xyz c) = length (get_features c) \<and>
     0 \<le> max_sh_degree c \<and>
     has_shape3 (get_features c) (nat ((max_sh_degree c + 1) ^ 2)) 3 \<and>
     (case get_covariance c scaling_modifier of Inl _ \<Rightarrow> False | Inr m \<Rightarrow> rows_of_width 6 m)"

text \<open>
  The layout of \<^verbatim>\<open>get_features\<close>: per primitive \<open>(max_sh_degree + 1)\<^sup>2\<close> coefficients of
  3 channels each.
\<close>

definition features_shaped :: "GaussianModel \<Rightarrow> bool" where
  "features_shaped c \<longleftrightarrow>
     has_shape3 (get_features c) (nat ((max_sh_degree c + 1) ^ 2)) 3"

text \<open>Positions as wide as the camera centre, one per row of the features.\<close>

definition positions_shaped :: "camera \<Rightarrow> GaussianModel \<Rightarrow> bool" where
  "positions_shaped viewpoint_camera c \<longleftrightarrow>
     length (get_xyz c) = length (get_features c) \<and>
     list_all (\<lambda>p. length p = length (camera_center viewpoint_camera)) (get_xyz c)"

section \<open>A small scene\<close>

text \<open>
  A dynamic cloud of one primitive and a secondary cloud of two, both of SH degree 0.
  The secondary cloud's accessor \<open>get_xyz\<close> differs from its stored positions. The
  stand-ins for the collaborators: \<open>demo_eval_sh\<close> sums the coefficients of a channel and
  subtracts 3, \<open>demo_rasterizer\<close> gives radius 2 to a primitive whose coordinates sum to
  more than 0 and radius 0 to the others.
\<close>

definition demo_pc :: GaussianModel where
  "demo_pc =
     \<lparr>raw_xyz = [[1, 0, 0]], raw_opacity = [[2]], get_xyz = [[1, 0, 0]],
      get_scaling = [[1, 1, 1]], get_rotation = [[1, 0, 0, 0]],
      get_features = [[[1, 2, 3]]],
      get_covariance = (\<lambda>s. Inr [[s, 0, 0, s, 0, s]]),
      active_sh_degree = 0, max_sh_degree = 0\<rparr>"

definition demo_prePC :: GaussianModel where
  "demo_prePC =
     \<lparr>raw_xyz = [[0, 2, 0], [0, 0, -1]], raw_opacity = [[1], [0]],
      get_xyz = [[0, 1, 0], [0, 0, 0]],
      get_scaling = [[2, 2, 2], [3, 3, 3]], get_rotation = [[0, 1, 0, 0], [0, 0, 1, 0]],
      get_features = [[[4, 5, 6]], [[7, 8, 9]]],
      get_covariance = (\<lambda>s. Inr [[2 * s, 0, 0, 2 * s, 0, 2 * s], [3 * s, 0, 0, 3 * s, 0, 3 * s]]),
      active_sh_degree = 0, max_sh_degree = 0\<rparr>"

definition demo_camera :: camera where
  "demo_camera =
     \<lparr>FoVx = 1, FoVy = 1, image_height = 2, image_width = 2,
      world_view_transform = [], full_proj_transform = [], camera_center = [0, 0, 0]\<rparr>"

definition demo_eval_sh :: "int \<Rightarrow> tensor3 \<Rightarrow> smatrix \<Rightarrow> error + smatrix" where
  "demo_eval_sh d S v = Inr (map (map (\<lambda>ch. Num (sum_list ch - 3))) S)"

definition demo_rasterizer ::
  "GaussianRasterizationSettings \<Rightarrow> raster_args \<Rightarrow> error + (tensor3 \<times> int list)" where
  "demo_rasterizer st a = Inr ([], map (\<lambda>p. if 0 < sum_list p then 2 else 0) (means3D a))"

definition demo_runtime :: "bool \<Rightarrow> runtime" where
  "demo_runtime g = \<lparr>grad_mode = g, eval_sh = demo_eval_sh, rasterizer = demo_rasterizer\<rparr>"

text \<open>
  A stand-in for \<^verbatim>\<open>eval_sh\<close> that reads the directions: per primitive and channel, the
  sum of the coefficients minus 3, plus the coordinate of the direction. \<open>demo_far_pc\<close> is
  the dynamic cloud with its primitive at distance 2 from the camera.
\<close>

definition demo_shade :: "real list list \<Rightarrow> scalar list \<Rightarrow> scalar list" where
  "demo_shade m dir = map2 (\<lambda>ch x. scalar_add x (sum_list ch - 3)) m dir"

definition demo_eval_sh_dir :: "int \<Rightarrow> tensor3 \<Rightarrow> smatrix \<Rightarrow> error + smatrix" where
  "demo_eval_sh_dir d S v = Inr (map2 demo_shade S v)"

definition demo_runtime_dir :: "bool \<Rightarrow> runtime" where
  "demo_runtime_dir g =
     \<lparr>grad_mode = g, eval_sh = demo_eval_sh_dir, rasterizer = demo_rasterizer\<rparr>"

definition demo_far_pc :: GaussianModel where
  "demo_far_pc = demo_pc\<lparr>get_xyz := [[0, 2, 0]]\<rparr>"

definition demo_pipe :: "bool \<Rightarrow> bool \<Rightarrow> pipeline" where
  "demo_pipe conv cov = \<lparr>convert_SHs_python = conv, compute_cov3D_python = cov, debug = False\<rparr>"

section \<open>Basic facts\<close>

lemma and_then_Inr_iff:
  "and_then m f = Inr y \<longleftrightarrow> (\<exists>x. m = Inr x \<and> f x = Inr y)"
  by (cases m) (simp_all add: and_then_def)

lemma and_then_Inr [simp]: "and_then (Inr x) f = f x"
  by (simp add: and_then_def)

lemma and_then_Inl [simp]: "and_then (Inl e) f = Inl e"
  by (simp add: and_then_def)

lemma cat_Inr: "cat shp a b = Inr c \<Longrightarrow> c = a @ b"
  by (auto simp: cat_def split: if_splits)

lemma cat_grad_Inr:
  "cat_grad g s t = Inr u \<Longrightarrow> entries u = entries s @ entries t"
  by (auto simp: cat_grad_def and_then_Inr_iff dest: cat_Inr)

lemma sequence_Inr_length: "sequence ms = Inr xs \<Longrightarrow> length xs = length ms"
  by (induction ms arbitrary: xs) (auto split: sum.splits)

lemma sequence_map_Inr: "sequence (map (\<lambda>x. Inr (f x)) xs) = Inr (map f xs)"
  by (induction xs) auto

lemma sequence_map2_Inr:
  "sequence (map (\<lambda>(x, y). Inr (f x y)) zs) = Inr (map (\<lambda>(x, y). f x y) zs)"
  by (induction zs) auto

lemma row_sub_same:
  "length r = length c \<Longrightarrow> row_sub r c = Inr (map2 (-) r c)"
  by (simp add: row_sub_def broadcast_def sequence_map2_Inr)

lemma tensor_sub_repeat:
  assumes "list_all (\<lambda>p. length p = length c) a"
  shows "tensor_sub a (repeat_rows c (length a)) = Inr (map (\<lambda>p. map2 (-) p c) a)"
proof -
  have "map2 row_sub a (replicate (length a) c) = map (\<lambda>p. Inr (map2 (-) p c)) a"
    using assms
    by (induction a) (auto simp: row_sub_same)
  then show ?thesis
    by (simp add: tensor_sub_def broadcast_def repeat_rows_def sequence_map_Inr)
qed

subsection \<open>The view of the transposed features\<close>

lemma chunks_Nil [simp]: "chunks k [] = []"
  by (simp add: chunks_def)

lemma chunks_append:
  assumes "length r = k" "0 < k"
  shows "chunks k (r @ xs) = r # chunks k xs"
proof -
  have d: "length (r @ xs) div k = Suc (length xs div k)"
    using assms by simp
  have "[0 ..< Suc (length xs div k)] = 0 # map Suc [0 ..< length xs div k]"
    by (simp add: upt_conv_Cons map_Suc_upt del: upt_Suc)
  then show ?thesis
    using assms by (simp add: chunks_def d comp_def del: upt_Suc)
qed

lemma chunks_concat:
  assumes "0 < k" "list_all (\<lambda>r. length r = k) rows"
  shows "chunks k (concat rows) = rows"
  using assms(2) by (induction rows) (simp_all add: chunks_append assms(1))

lemma length_concat_rect:
  "list_all (\<lambda>r. length r = k) rows \<Longrightarrow> length (concat rows) = length rows * k"
  by (induction rows) simp_all

lemma view_chunks_shaped:
  assumes "0 < k" "0 < n"
  shows "view_chunks 3 1 [(k, 3), (3, 1), (n, k * 3)] [k, 3, n]"
  using assms by (cases "k = 1"; cases "n = 1") auto

lemma view_m1_3_Inr:
  "view_m1_3 k t = Inr u \<Longrightarrow> 0 < k \<and> u = chunks 3 (chunks (nat k) (flat3 t))"
  by (auto simp: view_m1_3_def Let_def split: if_splits prod.splits)

text \<open>A tensor of shape \<open>(n, 3, k)\<close> is viewed as it is.\<close>

lemma view_m1_3_shaped:
  assumes k: "0 < k" and sh: "has_shape3 t 3 (nat k)"
  shows "view_m1_3 k t = Inr t"
proof (cases t)
  case Nil
  with k show ?thesis by (simp add: view_m1_3_def flat3_def)
next
  case (Cons m ms)
  let ?kk = "nat k"
  have kk: "0 < ?kk" using k by simp
  have mats: "list_all (\<lambda>m. length m = 3) t"
    and rows: "list_all (\<lambda>r. length r = ?kk) (concat t)"
    using sh by (auto simp: has_shape3_def list_all_iff)
  have lc: "length (concat t) = length t * 3"
    using mats by (rule length_concat_rect)
  have numel: "length (flat3 t) = length t * 3 * ?kk"
    using length_concat_rect [OF rows] lc by (simp add: flat3_def)
  have m: "length m = 3" "list_all (\<lambda>r. length r = ?kk) m"
    using sh Cons by (simp_all add: has_shape3_def)
  then obtain r rs where mr: "m = r # rs" by (cases m) auto
  with m(2) have r: "length r = ?kk" by simp
  have dims: "dims3 t = (length t, 3, ?kk)"
    using Cons mr m(1) r by (simp add: dims3_def)
  have regroup: "chunks 3 (chunks ?kk (flat3 t)) = t"
    using chunks_concat [OF kk rows] chunks_concat [of 3 t] mats
    by (simp add: flat3_def)
  have pos: "0 < length t" using Cons by simp
  have d: "length t * 3 * ?kk div (3 * ?kk) = length t"
    using kk by (simp add: mult.assoc)
  have z: "length t * 3 * ?kk mod (3 * ?kk) = 0"
    by (simp add: mult.assoc)
  have ne: "length t * 3 * ?kk \<noteq> 0"
    using pos kk by simp
  show ?thesis
    using k view_chunks_shaped [OF kk pos] ne
    by (simp add: view_m1_3_def numel dims regroup d z Let_def)
qed

text \<open>
  Two other cases: four primitives of one coefficient viewed with \<open>k = 4\<close> are regrouped
  into one matrix, and two primitives of four coefficients viewed with \<open>k = 1\<close> are
  refused.
\<close>

lemma view_m1_3_regroups:
  "view_m1_3 4 (transpose_1_2 [[[1, 2, 3]], [[4, 5, 6]], [[7, 8, 9]], [[10, 11, 12]]])
   = Inr [[[1, 2, 3, 4], [5, 6, 7, 8], [9, 10, 11, 12]]]"
  by (simp add: view_m1_3_def transpose_1_2_def transpose.simps flat3_def dims3_def
      chunks_def upt_conv_Cons)

lemma view_m1_3_refuses:
  "view_m1_3 1 (transpose_1_2 [[[1, 2, 3], [4, 5, 6], [7, 8, 9], [10, 11, 12]],
                               [[1, 2, 3], [4, 5, 6], [7, 8, 9], [10, 11, 12]]])
   = Inl InvalidView"
  by (simp add: view_m1_3_def transpose_1_2_def transpose.simps flat3_def dims3_def)

lemma length_transpose_rect:
  assumes "m \<noteq> []" "list_all (\<lambda>r. length r = w) m"
  shows "length (transpose m) = w"
proof -
  have "foldr (\<lambda>xs. max (length xs)) m 0 = (if m = [] then 0 else w)"
    using assms(2) by (induction m) (auto simp: list_all_iff)
  with assms(1) show ?thesis by (simp add: length_transpose)
qed

lemma transpose_rect_rows:
  assumes "m \<noteq> []" "list_all (\<lambda>r. length r = w) m"
  shows "list_all (\<lambda>r. length r = length m) (transpose m)"
proof -
  have "length (transpose m ! i) = length m" if "i < length (transpose m)" for i
  proof -
    from that have "i < w" using length_transpose_rect [OF assms] by simp
    then have "filter (\<lambda>ys. i < length ys) m = m"
      using assms(2) by (auto simp: list_all_iff intro: filter_True)
    with nth_transpose [OF that] show ?thesis by simp
  qed
  then show ?thesis by (simp add: list_all_length)
qed

text \<open>Features of shape \<open>(n, c, w)\<close> with \<open>c > 0\<close> are transposed to shape \<open>(n, w, c)\<close>.\<close>

lemma transpose_1_2_shape:
  assumes "0 < c" "has_shape3 t c w"
  shows "has_shape3 (transpose_1_2 t) w c"
proof -
  have "length (transpose m) = w \<and> list_all (\<lambda>r. length r = c) (transpose m)"
    if "m \<in> set t" for m
  proof -
    from that assms(2) have m: "length m = c" "list_all (\<lambda>r. length r = w) m"
      by (auto simp: has_shape3_def list_all_iff)
    from m(1) assms(1) have "m \<noteq> []" by auto
    from length_transpose_rect [OF this m(2)] transpose_rect_rows [OF this m(2)] m(1)
    show ?thesis by simp
  qed
  then show ?thesis
    by (simp add: has_shape3_def transpose_1_2_def list_all_iff)
qed

subsection \<open>The stages of render, when they return\<close>

lemma rasterizer_inputs_Inr:
  assumes "rasterizer_inputs ctx cam pc prePC pipe sm oc = Inr a"
  shows "cat2 (raw_xyz pc) (raw_xyz prePC) = Inr (means3D a)"
    and "cat2 (raw_opacity pc) (raw_opacity prePC) = Inr (opacities a)"
    and "cat_grad (grad_mode ctx) (fst (screenspace_points ctx pc))
           (screenspace_points_pre ctx prePC) = Inr (means2D a)"
    and "merged_geometry pipe pc prePC sm = Inr (scales a, rotations a, cov3D_precomp a)"
    and "merged_colour ctx cam pipe pc prePC oc = Inr (shs a, colors_precomp a)"
  using assms
  by (auto simp: rasterizer_inputs_def and_then_Inr_iff)

lemma merged_geometry_cov:
  assumes "merged_geometry pipe pc prePC sm = Inr (sc, ro, cov)" "compute_cov3D_python pipe"
  shows "sc = None \<and> ro = None \<and>
    (\<exists>c1 c2. get_covariance pc sm = Inr c1 \<and> get_covariance prePC sm = Inr c2 \<and>
       cov = Some (c1 @ c2))"
  using assms by (auto simp: merged_geometry_def and_then_Inr_iff dest: cat_Inr)

lemma merged_geometry_scale_rot:
  assumes "merged_geometry pipe pc prePC sm = Inr (sc, ro, cov)" "\<not> compute_cov3D_python pipe"
  shows "cov = None \<and> sc = Some (get_scaling pc @ get_scaling prePC) \<and>
    ro = Some (get_rotation pc @ get_rotation prePC)"
  using assms by (auto simp: merged_geometry_def and_then_Inr_iff dest: cat_Inr)

lemma merged_colour_override:
  "merged_colour ctx cam pipe pc prePC (Some c) = Inr (None, Some c)"
  by (simp add: merged_colour_def)

lemma merged_colour_deferred:
  assumes "merged_colour ctx cam pipe pc prePC None = Inr (sh, col)" "\<not> convert_SHs_python pipe"
  shows "sh = Some (get_features pc @ get_features prePC) \<and> col = None"
  using assms by (auto simp: merged_colour_def and_then_Inr_iff dest: cat_Inr)

lemma merged_colour_local:
  assumes "merged_colour ctx cam pipe pc prePC None = Inr (sh, col)" "convert_SHs_python pipe"
  shows "\<exists>S v c. shs_view pc prePC = Inr S \<and> dir_pp_normalized cam pc prePC = Inr v \<and>
     eval_sh ctx (active_sh_degree pc) S v = Inr c \<and> sh = None \<and>
     col = Some (map (map (\<lambda>x. clamp_min (scalar_add x 0.5) 0)) c)"
  using assms by (auto simp: merged_colour_def and_then_Inr_iff)

lemma sh_reshaped_Inr:
  "sh_reshaped c = Inr S \<Longrightarrow>
     0 < (max_sh_degree c + 1) ^ 2 \<and>
     S = chunks 3 (chunks (nat ((max_sh_degree c + 1) ^ 2))
           (flat3 (transpose_1_2 (get_features c))))"
  by (auto simp: sh_reshaped_def dest: view_m1_3_Inr)

text \<open>
  On features of \<open>(max_sh_degree + 1)\<^sup>2\<close> coefficients by 3 channels the reshaping is the
  transposition, one matrix per primitive.
\<close>

lemma sh_reshaped_shaped:
  assumes "features_shaped c" "max_sh_degree c \<noteq> - 1"
  shows "sh_reshaped c = Inr (transpose_1_2 (get_features c))"
proof -
  let ?k = "(max_sh_degree c + 1) ^ 2"
  from assms(2) have k: "0 < ?k" by simp
  then have "0 < nat ?k" by simp
  from transpose_1_2_shape [OF this assms(1) [unfolded features_shaped_def]]
  show ?thesis
    unfolding sh_reshaped_def by (rule view_m1_3_shaped [OF k])
qed

lemma sh_reshaped_shaped_Inr:
  assumes "sh_reshaped c = Inr S" "features_shaped c"
  shows "S = transpose_1_2 (get_features c)"
proof -
  from sh_reshaped_Inr [OF assms(1)] have "max_sh_degree c \<noteq> - 1" by auto
  from sh_reshaped_shaped [OF assms(2) this] assms(1) show ?thesis by simp
qed

lemma shs_view_Inr:
  assumes "shs_view pc prePC = Inr S"
  shows "\<exists>S1 S2. sh_reshaped pc = Inr S1 \<and> sh_reshaped prePC = Inr S2 \<and> S = S1 @ S2"
  using assms
  by (auto simp: shs_view_def and_then_Inr_iff dest!: cat_Inr)

lemma dir_pp_normalized_Inr:
  assumes "dir_pp_normalized cam pc prePC = Inr v"
  shows "\<exists>d1 d2. dir_pp_of cam pc = Inr d1 \<and> dir_pp_of cam prePC = Inr d2 \<and>
     v = map normalize_row (d1 @ d2)"
  using assms
  by (auto simp: dir_pp_normalized_def and_then_Inr_iff dest!: cat_Inr)

lemma dir_pp_of_length:
  assumes "dir_pp_of cam c = Inr d" "length (get_xyz c) = length (get_features c)"
  shows "length d = length (get_xyz c)"
  using assms
  by (auto simp: dir_pp_of_def tensor_sub_def broadcast_def repeat_rows_def
      dest!: sequence_Inr_length)

lemma dir_pp_of_shaped:
  assumes "positions_shaped cam c"
  shows "dir_pp_of cam c = Inr (map (\<lambda>p. map2 (-) p (camera_center cam)) (get_xyz c))"
  using assms tensor_sub_repeat [of "camera_center cam" "get_xyz c"]
  by (simp add: positions_shaped_def dir_pp_of_def)

lemma screenspace_points_entries:
  "entries (fst (screenspace_points ctx pc)) = map (map (\<lambda>_. 0)) (get_xyz pc)"
  by (simp add: screenspace_points_def retain_grad_def add_const_def zeros_like_def Let_def
      comp_def)

lemma screenspace_points_pre_entries:
  "entries (screenspace_points_pre ctx prePC) = map (map (\<lambda>_. 0)) (get_xyz prePC)"
  by (simp add: screenspace_points_pre_def add_const_def zeros_like_def comp_def)

subsection \<open>The small scene, evaluated\<close>

lemmas demo_defs = demo_pc_def demo_prePC_def demo_camera_def demo_eval_sh_def
  demo_rasterizer_def demo_runtime_def demo_pipe_def demo_shade_def demo_eval_sh_dir_def
  demo_runtime_dir_def demo_far_pc_def

lemmas stage_defs = rasterizer_inputs_def merged_colour_def merged_geometry_def
  shs_view_def sh_reshaped_def dir_pp_normalized_def dir_pp_of_def cat_def cat_grad_def
  screenspace_points_def screenspace_points_pre_def add_const_def zeros_like_def
  retain_grad_def view_m1_3_def transpose_1_2_def tensor_sub_def row_sub_def broadcast_def
  repeat_rows_def normalize_row_def norm_row_def flat3_def chunks_def dims3_def Let_def
  upt_conv_Cons

lemma demo_deferred:
  "rasterizer_inputs (demo_runtime True) demo_camera demo_pc demo_prePC (demo_pipe False False) 1 None
   = Inr \<lparr>means3D = [[1, 0, 0], [0, 2, 0], [0, 0, -1]],
          means2D = \<lparr>entries = [[0, 0, 0], [0, 0, 0], [0, 0, 0]], requires_grad = True,
                     is_leaf = False, retains_grad = False\<rparr>,
          shs = Some [[[1, 2, 3]], [[4, 5, 6]], [[7, 8, 9]]],
          colors_precomp = None,
          opacities = [[2], [1], [0]],
          scales = Some [[1, 1, 1], [2, 2, 2], [3, 3, 3]],
          rotations = Some [[1, 0, 0, 0], [0, 1, 0, 0], [0, 0, 1, 0]],
          cov3D_precomp = None\<rparr>"
  by (simp add: demo_defs stage_defs)

lemma demo_local:
  "rasterizer_inputs (demo_runtime True) demo_camera demo_pc demo_prePC (demo_pipe True True) 1 None
   = Inr \<lparr>means3D = [[1, 0, 0], [0, 2, 0], [0, 0, -1]],
          means2D = \<lparr>entries = [[0, 0, 0], [0, 0, 0], [0, 0, 0]], requires_grad = True,
                     is_leaf = False, retains_grad = False\<rparr>,
          shs = None,
          colors_precomp = Some [[Num 0, Num 0, Num (1/2)], [Num (3/2), Num (5/2), Num (7/2)],
                                 [Num (9/2), Num (11/2), Num (13/2)]],
          opacities = [[2], [1], [0]],
          scales = None,
          rotations = None,
          cov3D_precomp = Some [[1, 0, 0, 1, 0, 1], [2, 0, 0, 2, 0, 2], [3, 0, 0, 3, 0, 3]]\<rparr>"
  by (simp add: demo_defs stage_defs transpose.simps)

lemma demo_local_dir:
  "rasterizer_inputs (demo_runtime_dir True) demo_camera demo_pc demo_prePC (demo_pipe True True)
     1 None
   = Inr \<lparr>means3D = [[1, 0, 0], [0, 2, 0], [0, 0, -1]],
          means2D = \<lparr>entries = [[0, 0, 0], [0, 0, 0], [0, 0, 0]], requires_grad = True,
                     is_leaf = False, retains_grad = False\<rparr>,
          shs = None,
          colors_precomp = Some [[Num 0, Num 0, Num (1/2)], [Num (3/2), Num (7/2), Num (7/2)],
                                 [NaN, NaN, NaN]],
          opacities = [[2], [1], [0]],
          scales = None,
          rotations = None,
          cov3D_precomp = Some [[1, 0, 0, 1, 0, 1], [2, 0, 0, 2, 0, 2], [3, 0, 0, 3, 0, 3]]\<rparr>"
  by (simp add: demo_defs stage_defs transpose.simps)


lemma demo_features_shaped: "features_shaped demo_pc" "features_shaped demo_prePC"
  "features_shaped demo_far_pc"
  by (simp_all add: features_shaped_def has_shape3_def demo_defs)

lemma demo_sizes: "cloud_size 1 demo_pc 1" "cloud_size 1 demo_prePC 2"
  by (simp_all add: cloud_size_def demo_defs)

section \<open>Well-shaped clouds reach the rasterizer\<close>

text \<open>
  No operation of \<^verbatim>\<open>render\<close> raises on well-shaped clouds of the same SH degree, in any
  of the modes, as long as the collaborators return.
\<close>

lemma cat_same_shape:
  assumes "list_all (\<lambda>x. shp x = k) a" "list_all (\<lambda>y. shp y = k) b"
  shows "cat shp a b = Inr (a @ b)"
  using assms by (auto simp: cat_def list_all_iff)

lemma cat2_rows_of_width:
  "rows_of_width w a \<Longrightarrow> rows_of_width w b \<Longrightarrow> cat2 a b = Inr (a @ b)"
  unfolding rows_of_width_def by (rule cat_same_shape)

lemma map_length_rect:
  "length m = c \<Longrightarrow> list_all (\<lambda>r. length r = w) m \<Longrightarrow> map length m = replicate c w"
  by (induction m arbitrary: c) auto

lemma cat3_has_shape3:
  assumes "has_shape3 s c w" "has_shape3 t c w"
  shows "cat3 s t = Inr (s @ t)"
proof (rule cat_same_shape [where k = "replicate c w"])
  show "list_all (\<lambda>x. map length x = replicate c w) s"
    using assms(1) by (auto simp: has_shape3_def list_all_iff intro: map_length_rect)
  show "list_all (\<lambda>x. map length x = replicate c w) t"
    using assms(2) by (auto simp: has_shape3_def list_all_iff intro: map_length_rect)
qed

lemma sh_reshaped_returns:
  assumes "0 \<le> max_sh_degree c"
    and "has_shape3 (get_features c) (nat ((max_sh_degree c + 1) ^ 2)) 3"
  shows "sh_reshaped c = Inr (transpose_1_2 (get_features c))"
    and "has_shape3 (transpose_1_2 (get_features c)) 3 (nat ((max_sh_degree c + 1) ^ 2))"
proof -
  from assms(1) have k: "0 < nat ((max_sh_degree c + 1) ^ 2)" "max_sh_degree c \<noteq> - 1"
    by simp_all
  show "sh_reshaped c = Inr (transpose_1_2 (get_features c))"
    using assms(2) k(2) by (simp add: sh_reshaped_shaped features_shaped_def)
  show "has_shape3 (transpose_1_2 (get_features c)) 3 (nat ((max_sh_degree c + 1) ^ 2))"
    using k(1) assms(2) by (rule transpose_1_2_shape)
qed

lemma dir_pp_of_returns:
  assumes "rows_of_width 3 (get_xyz c)" "length (get_xyz c) = length (get_features c)"
    "length (camera_center cam) = 3"
  shows "dir_pp_of cam c = Inr (map (\<lambda>p. map2 (-) p (camera_center cam)) (get_xyz c))"
    and "rows_of_width 3 (map (\<lambda>p. map2 (-) p (camera_center cam)) (get_xyz c))"
proof -
  have "positions_shaped cam c"
    using assms by (simp add: positions_shaped_def rows_of_width_def)
  then show "dir_pp_of cam c = Inr (map (\<lambda>p. map2 (-) p (camera_center cam)) (get_xyz c))"
    by (rule dir_pp_of_shaped)
  show "rows_of_width 3 (map (\<lambda>p. map2 (-) p (camera_center cam)) (get_xyz c))"
    using assms(1,3) by (auto simp: rows_of_width_def list_all_iff)
qed

lemma rasterizer_inputs_returns:
  assumes pc: "well_shaped sm pc" and pre: "well_shaped sm prePC"
    and deg: "max_sh_degree pc = max_sh_degree prePC"
    and cam: "length (camera_center cam) = 3"
    and ev: "\<And>S v. \<exists>c. eval_sh ctx (active_sh_degree pc) S v = Inr c"
  shows "\<exists>a. rasterizer_inputs ctx cam pc prePC pipe sm oc = Inr a"
proof -
  have xyz: "cat2 (raw_xyz pc) (raw_xyz prePC) = Inr (raw_xyz pc @ raw_xyz prePC)"
    using pc pre by (auto simp: well_shaped_def intro: cat2_rows_of_width)
  have op: "cat2 (raw_opacity pc) (raw_opacity prePC) = Inr (raw_opacity pc @ raw_opacity prePC)"
    using pc pre by (auto simp: well_shaped_def intro: cat2_rows_of_width)
  have "rows_of_width 3 (entries (fst (screenspace_points ctx pc)))"
    "rows_of_width 3 (entries (screenspace_points_pre ctx prePC))"
    using pc pre
    by (auto simp: well_shaped_def rows_of_width_def list_all_iff screenspace_points_entries
        screenspace_points_pre_entries)
  then have "\<exists>g. cat_grad (grad_mode ctx) (fst (screenspace_points ctx pc))
      (screenspace_points_pre ctx prePC) = Inr g"
    using cat2_rows_of_width [of 3 "entries (fst (screenspace_points ctx pc))"
        "entries (screenspace_points_pre ctx prePC)"]
    by (simp add: cat_grad_def)
  then obtain g where g: "cat_grad (grad_mode ctx) (fst (screenspace_points ctx pc))
      (screenspace_points_pre ctx prePC) = Inr g" ..
  have "\<exists>q. merged_geometry pipe pc prePC sm = Inr q"
  proof (cases "compute_cov3D_python pipe")
    case True
    from pc pre obtain c1 c2 where "get_covariance pc sm = Inr c1" "rows_of_width 6 c1"
      "get_covariance prePC sm = Inr c2" "rows_of_width 6 c2"
      by (auto simp: well_shaped_def split: sum.splits)
    with True cat2_rows_of_width [of 6 c1 c2] show ?thesis
      by (simp add: merged_geometry_def)
  next
    case False
    with pc pre cat2_rows_of_width [of 3 "get_scaling pc" "get_scaling prePC"]
      cat2_rows_of_width [of 4 "get_rotation pc" "get_rotation prePC"]
    show ?thesis
      by (simp add: merged_geometry_def well_shaped_def)
  qed
  then obtain sc ro cov where geo: "merged_geometry pipe pc prePC sm = Inr (sc, ro, cov)"
    by (metis prod_cases3)
  let ?k = "nat ((max_sh_degree pc + 1) ^ 2)"
  have f1: "has_shape3 (get_features pc) ?k 3" and f2: "has_shape3 (get_features prePC) ?k 3"
    using pc pre deg by (simp_all add: well_shaped_def)
  have "\<exists>q. merged_colour ctx cam pipe pc prePC oc = Inr q"
  proof (cases oc)
    case (Some c)
    then show ?thesis by (simp add: merged_colour_override)
  next
    case None
    show ?thesis
    proof (cases "convert_SHs_python pipe")
      case False
      with None cat3_has_shape3 [OF f1 f2] show ?thesis
        by (simp add: merged_colour_def)
    next
      case True
      have s1: "sh_reshaped pc = Inr (transpose_1_2 (get_features pc))"
        "has_shape3 (transpose_1_2 (get_features pc)) 3 ?k"
        using sh_reshaped_returns [of pc] pc by (simp_all add: well_shaped_def)
      have s2: "sh_reshaped prePC = Inr (transpose_1_2 (get_features prePC))"
        "has_shape3 (transpose_1_2 (get_features prePC)) 3 ?k"
        using sh_reshaped_returns [of prePC] pre deg by (simp_all add: well_shaped_def)
      have S: "\<exists>S. shs_view pc prePC = Inr S"
        using s1(1) s2(1) cat3_has_shape3 [OF s1(2) s2(2)] by (simp add: shs_view_def)
      have d1: "dir_pp_of cam pc = Inr (map (\<lambda>p. map2 (-) p (camera_center cam)) (get_xyz pc))"
        "rows_of_width 3 (map (\<lambda>p. map2 (-) p (camera_center cam)) (get_xyz pc))"
        using dir_pp_of_returns [of pc cam] pc cam by (simp_all add: well_shaped_def)
      have d2: "dir_pp_of cam prePC = Inr (map (\<lambda>p. map2 (-) p (camera_center cam)) (get_xyz prePC))"
        "rows_of_width 3 (map (\<lambda>p. map2 (-) p (camera_center cam)) (get_xyz prePC))"
        using dir_pp_of_returns [of prePC cam] pre cam by (simp_all add: well_shaped_def)
      have v: "\<exists>v. dir_pp_normalized cam pc prePC = Inr v"
        using d1(1) d2(1) cat2_rows_of_width [OF d1(2) d2(2)]
        by (simp add: dir_pp_normalized_def)
      from S v obtain S' v' where Sv: "shs_view pc prePC = Inr S'"
        "dir_pp_normalized cam pc prePC = Inr v'" by blast
      from ev [of S' v'] obtain c where "eval_sh ctx (active_sh_degree pc) S' v' = Inr c" ..
      with Sv None True show ?thesis
        by (simp add: merged_colour_def)
    qed
  qed
  then obtain sh col where col: "merged_colour ctx cam pipe pc prePC oc = Inr (sh, col)"
    by (metis surj_pair)
  show ?thesis
    by (simp add: rasterizer_inputs_def xyz op g geo col)
qed

lemma demo_well_shaped: "well_shaped 1 demo_pc" "well_shaped 1 demo_prePC"
  by (simp_all add: well_shaped_def rows_of_width_def has_shape3_def demo_defs)

lemma render_returns:
  assumes "well_shaped sm pc" and "well_shaped sm prePC"
    and "max_sh_degree pc = max_sh_degree prePC"
    and "length (camera_center cam) = 3"
    and "\<And>S v. \<exists>c. eval_sh ctx (active_sh_degree pc) S v = Inr c"
    and rz: "\<And>a. \<exists>out. rasterizer ctx (raster_settings cam pc pipe bg_color sm) a = Inr out"
  shows "\<exists>r. render ctx cam pc prePC pipe bg_color sm oc = Inr r"
proof -
  from rasterizer_inputs_returns [OF assms(1-5)] obtain a where
    "rasterizer_inputs ctx cam pc prePC pipe sm oc = Inr a" by blast
  moreover from rz [of a] obtain img rad where
    "rasterizer ctx (raster_settings cam pc pipe bg_color sm) a = Inr (img, rad)"
    by (metis surj_pair)
  ultimately show ?thesis
    by (simp add: render_def render_steps_def Let_def split: prod.split)
qed

section \<open>The merged batch\<close>

lemma map_clamp_map2:
  "map (map f) (map2 shade S v) = map2 (\<lambda>s d. map f (shade s d)) S v"
  by (simp add: case_prod_unfold)

text \<open>
  C1. For a dynamic cloud of \<open>n1\<close> primitives and a secondary cloud of \<open>n2\<close>, every
  per-primitive tensor that \<^verbatim>\<open>render\<close> merges is the dynamic cloud's tensor followed by the
  secondary cloud's, and has \<open>n1 + n2\<close> rows: the positions, the opacities, the screen-space
  placeholder, the covariance or else the scales and rotations, and the raw SH tensor.
  In the local evaluation the directions are merged in the same way, \<open>n1 + n2\<close> rows, and
  the merged SH tensor is the dynamic cloud's reshaped tensor followed by the secondary
  cloud's; on features of \<open>(max_sh_degree + 1)\<^sup>2\<close> coefficients by 3 channels it has
  \<open>n1 + n2\<close> matrices, and when \<^verbatim>\<open>eval_sh\<close> evaluates primitive by primitive (\<open>shade\<close> is
  what it does to one primitive), the colour is the dynamic cloud's colours followed by
  the secondary cloud's, \<open>n1 + n2\<close> rows.
\<close>

theorem merged_tensors_concatenate:
  assumes inputs: "rasterizer_inputs ctx cam pc prePC pipe sm oc = Inr a"
    and n1: "cloud_size sm pc n1" and n2: "cloud_size sm prePC n2"
  shows "means3D a = raw_xyz pc @ raw_xyz prePC \<and> length (means3D a) = n1 + n2 \<and>
    opacities a = raw_opacity pc @ raw_opacity prePC \<and> length (opacities a) = n1 + n2 \<and>
    entries (means2D a) =
      entries (fst (screenspace_points ctx pc)) @ entries (screenspace_points_pre ctx prePC) \<and>
    length (entries (fst (screenspace_points ctx pc))) = n1 \<and>
    length (entries (means2D a)) = n1 + n2 \<and>
    (compute_cov3D_python pipe \<longrightarrow>
       (\<exists>pcCov preCov. get_covariance pc sm = Inr pcCov \<and> get_covariance prePC sm = Inr preCov \<and>
          length pcCov = n1 \<and> cov3D_precomp a = Some (pcCov @ preCov) \<and>
          length (pcCov @ preCov) = n1 + n2)) \<and>
    (\<not> compute_cov3D_python pipe \<longrightarrow>
       scales a = Some (get_scaling pc @ get_scaling prePC) \<and>
       length (get_scaling pc @ get_scaling prePC) = n1 + n2 \<and>
       rotations a = Some (get_rotation pc @ get_rotation prePC) \<and>
       length (get_rotation pc @ get_rotation prePC) = n1 + n2) \<and>
    (oc = None \<and> \<not> convert_SHs_python pipe \<longrightarrow>
       shs a = Some (get_features pc @ get_features prePC) \<and>
       length (get_features pc @ get_features prePC) = n1 + n2) \<and>
    (oc = None \<and> convert_SHs_python pipe \<longrightarrow>
       (\<exists>pcShs preShs pc_dir_pp pre_dir_pp sh2rgb.
          sh_reshaped pc = Inr pcShs \<and> sh_reshaped prePC = Inr preShs \<and>
          shs_view pc prePC = Inr (pcShs @ preShs) \<and>
          dir_pp_of cam pc = Inr pc_dir_pp \<and> dir_pp_of cam prePC = Inr pre_dir_pp \<and>
          dir_pp_normalized cam pc prePC = Inr (map normalize_row (pc_dir_pp @ pre_dir_pp)) \<and>
          length pc_dir_pp = n1 \<and> length (pc_dir_pp @ pre_dir_pp) = n1 + n2 \<and>
          eval_sh ctx (active_sh_degree pc) (pcShs @ preShs)
            (map normalize_row (pc_dir_pp @ pre_dir_pp)) = Inr sh2rgb \<and>
          colors_precomp a = Some (map (map (\<lambda>x. clamp_min (scalar_add x 0.5) 0)) sh2rgb) \<and>
          (features_shaped pc \<and> features_shaped prePC \<longrightarrow>
             pcShs = transpose_1_2 (get_features pc) \<and>
             preShs = transpose_1_2 (get_features prePC) \<and>
             length pcShs = n1 \<and> length (pcShs @ preShs) = n1 + n2 \<and>
             ((\<forall>S v. length S = length v \<longrightarrow>
                  eval_sh ctx (active_sh_degree pc) S v = Inr (map2 shade S v)) \<longrightarrow>
                colors_precomp a =
                  Some (map2 (\<lambda>s d. map (\<lambda>x. clamp_min (scalar_add x 0.5) 0) (shade s d))
                          pcShs (map normalize_row pc_dir_pp) @
                        map2 (\<lambda>s d. map (\<lambda>x. clamp_min (scalar_add x 0.5) 0) (shade s d))
                          preShs (map normalize_row pre_dir_pp)) \<and>
                length (map2 (\<lambda>s d. map (\<lambda>x. clamp_min (scalar_add x 0.5) 0) (shade s d))
                          pcShs (map normalize_row pc_dir_pp)) = n1 \<and>
                length (map2 (\<lambda>s d. map (\<lambda>x. clamp_min (scalar_add x 0.5) 0) (shade s d))
                          pcShs (map normalize_row pc_dir_pp) @
                        map2 (\<lambda>s d. map (\<lambda>x. clamp_min (scalar_add x 0.5) 0) (shade s d))
                          preShs (map normalize_row pre_dir_pp)) = n1 + n2))))"
proof -
  note st = rasterizer_inputs_Inr [OF inputs]
  have xyz: "means3D a = raw_xyz pc @ raw_xyz prePC"
    using st(1) by (rule cat_Inr)
  have op: "opacities a = raw_opacity pc @ raw_opacity prePC"
    using st(2) by (rule cat_Inr)
  have m2: "entries (means2D a) =
      entries (fst (screenspace_points ctx pc)) @ entries (screenspace_points_pre ctx prePC)"
    using st(3) by (rule cat_grad_Inr)
  have sp: "length (entries (fst (screenspace_points ctx pc))) = n1"
    using n1 by (simp add: screenspace_points_entries cloud_size_def)
  have spp: "length (entries (screenspace_points_pre ctx prePC)) = n2"
    using n2 by (simp add: screenspace_points_pre_entries cloud_size_def)
  have cov: "\<exists>pcCov preCov. get_covariance pc sm = Inr pcCov \<and> get_covariance prePC sm = Inr preCov \<and>
          length pcCov = n1 \<and> cov3D_precomp a = Some (pcCov @ preCov) \<and>
          length (pcCov @ preCov) = n1 + n2" if "compute_cov3D_python pipe"
  proof -
    from merged_geometry_cov [OF st(4) that]
    obtain c1 c2 where c: "get_covariance pc sm = Inr c1" "get_covariance prePC sm = Inr c2"
      "cov3D_precomp a = Some (c1 @ c2)" by blast
    from c(1) n1 have "length c1 = n1" by (simp add: cloud_size_def)
    moreover from c(2) n2 have "length c2 = n2" by (simp add: cloud_size_def)
    ultimately show ?thesis using c by simp
  qed
  have sr: "scales a = Some (get_scaling pc @ get_scaling prePC) \<and>
       length (get_scaling pc @ get_scaling prePC) = n1 + n2 \<and>
       rotations a = Some (get_rotation pc @ get_rotation prePC) \<and>
       length (get_rotation pc @ get_rotation prePC) = n1 + n2" if "\<not> compute_cov3D_python pipe"
    using merged_geometry_scale_rot [OF st(4) that] n1 n2 by (simp add: cloud_size_def)
  have deferred: "shs a = Some (get_features pc @ get_features prePC) \<and>
       length (get_features pc @ get_features prePC) = n1 + n2"
    if "oc = None" "\<not> convert_SHs_python pipe"
    using merged_colour_deferred [OF st(5) [unfolded that(1)] that(2)] n1 n2
    by (simp add: cloud_size_def)
  let ?cl = "\<lambda>x. clamp_min (scalar_add x 0.5) 0"
  let ?h = "\<lambda>s d. map ?cl (shade s d)"
  have local: "\<exists>pcShs preShs pc_dir_pp pre_dir_pp sh2rgb.
          sh_reshaped pc = Inr pcShs \<and> sh_reshaped prePC = Inr preShs \<and>
          shs_view pc prePC = Inr (pcShs @ preShs) \<and>
          dir_pp_of cam pc = Inr pc_dir_pp \<and> dir_pp_of cam prePC = Inr pre_dir_pp \<and>
          dir_pp_normalized cam pc prePC = Inr (map normalize_row (pc_dir_pp @ pre_dir_pp)) \<and>
          length pc_dir_pp = n1 \<and> length (pc_dir_pp @ pre_dir_pp) = n1 + n2 \<and>
          eval_sh ctx (active_sh_degree pc) (pcShs @ preShs)
            (map normalize_row (pc_dir_pp @ pre_dir_pp)) = Inr sh2rgb \<and>
          colors_precomp a = Some (map (map ?cl) sh2rgb) \<and>
          (features_shaped pc \<and> features_shaped prePC \<longrightarrow>
             pcShs = transpose_1_2 (get_features pc) \<and>
             preShs = transpose_1_2 (get_features prePC) \<and>
             length pcShs = n1 \<and> length (pcShs @ preShs) = n1 + n2 \<and>
             ((\<forall>S v. length S = length v \<longrightarrow>
                  eval_sh ctx (active_sh_degree pc) S v = Inr (map2 shade S v)) \<longrightarrow>
                colors_precomp a =
                  Some (map2 ?h pcShs (map normalize_row pc_dir_pp) @
                        map2 ?h preShs (map normalize_row pre_dir_pp)) \<and>
                length (map2 ?h pcShs (map normalize_row pc_dir_pp)) = n1 \<and>
                length (map2 ?h pcShs (map normalize_row pc_dir_pp) @
                        map2 ?h preShs (map normalize_row pre_dir_pp)) = n1 + n2))"
    if "oc = None" "convert_SHs_python pipe"
  proof -
    from merged_colour_local [OF st(5) [unfolded that(1)] that(2)]
    obtain S v c where l: "shs_view pc prePC = Inr S" "dir_pp_normalized cam pc prePC = Inr v"
      "eval_sh ctx (active_sh_degree pc) S v = Inr c"
      "colors_precomp a = Some (map (map ?cl) c)"
      by blast
    from shs_view_Inr [OF l(1)] obtain S1 S2 where
      s: "sh_reshaped pc = Inr S1" "sh_reshaped prePC = Inr S2" "S = S1 @ S2" by blast
    from dir_pp_normalized_Inr [OF l(2)] obtain d1 d2 where
      d: "dir_pp_of cam pc = Inr d1" "dir_pp_of cam prePC = Inr d2"
      "v = map normalize_row (d1 @ d2)" by blast
    have ld: "length d1 = n1" "length d2 = n2"
      using dir_pp_of_length [OF d(1)] dir_pp_of_length [OF d(2)] n1 n2
      by (simp_all add: cloud_size_def)
    have shaped: "S1 = transpose_1_2 (get_features pc) \<and>
             S2 = transpose_1_2 (get_features prePC) \<and>
             length S1 = n1 \<and> length (S1 @ S2) = n1 + n2 \<and>
             ((\<forall>S v. length S = length v \<longrightarrow>
                  eval_sh ctx (active_sh_degree pc) S v = Inr (map2 shade S v)) \<longrightarrow>
                colors_precomp a =
                  Some (map2 ?h S1 (map normalize_row d1) @ map2 ?h S2 (map normalize_row d2)) \<and>
                length (map2 ?h S1 (map normalize_row d1)) = n1 \<and>
                length (map2 ?h S1 (map normalize_row d1) @ map2 ?h S2 (map normalize_row d2))
                  = n1 + n2)"
      if f: "features_shaped pc" "features_shaped prePC"
    proof -
      have t: "S1 = transpose_1_2 (get_features pc)" "S2 = transpose_1_2 (get_features prePC)"
        using sh_reshaped_shaped_Inr [OF s(1) f(1)] sh_reshaped_shaped_Inr [OF s(2) f(2)]
        by simp_all
      have ls: "length S1 = n1" "length S2 = n2"
        using t n1 n2 by (simp_all add: cloud_size_def transpose_1_2_def)
      have per: "colors_precomp a =
               Some (map2 ?h S1 (map normalize_row d1) @ map2 ?h S2 (map normalize_row d2)) \<and>
             length (map2 ?h S1 (map normalize_row d1)) = n1 \<and>
             length (map2 ?h S1 (map normalize_row d1) @ map2 ?h S2 (map normalize_row d2))
               = n1 + n2"
        if c: "\<forall>S v. length S = length v \<longrightarrow>
               eval_sh ctx (active_sh_degree pc) S v = Inr (map2 shade S v)"
      proof -
        have "length S = length v"
          using s(3) d(3) ls ld by simp
        with c l(3) have "c = map2 shade S v" by simp
        then have "map (map ?cl) c =
            map2 ?h (S1 @ S2) (map normalize_row d1 @ map normalize_row d2)"
          using s(3) d(3) by (auto simp: map_clamp_map2)
        also have "\<dots> = map2 ?h S1 (map normalize_row d1) @ map2 ?h S2 (map normalize_row d2)"
          using ls ld by simp
        finally show ?thesis using l(4) ls ld by simp
      qed
      have "length (S1 @ S2) = n1 + n2"
        using ls by simp
      with t ls(1) per show ?thesis by blast
    qed
    have sv: "shs_view pc prePC = Inr (S1 @ S2)"
      using l(1) s(3) by simp
    have dn: "dir_pp_normalized cam pc prePC = Inr (map normalize_row (d1 @ d2))"
      using l(2) d(3) by simp
    have ev: "eval_sh ctx (active_sh_degree pc) (S1 @ S2) (map normalize_row (d1 @ d2)) = Inr c"
      using l(3) s(3) d(3) by simp
    have ldd: "length (d1 @ d2) = n1 + n2"
      using ld by simp
    show ?thesis
      using s(1,2) sv d(1,2) dn ld(1) ldd ev l(4) shaped
      by (intro exI [of _ S1] exI [of _ S2] exI [of _ d1] exI [of _ d2] exI [of _ c] conjI)
        blast+
  qed
  have len_xyz: "length (means3D a) = n1 + n2"
    using xyz n1 n2 by (simp add: cloud_size_def)
  have len_op: "length (opacities a) = n1 + n2"
    using op n1 n2 by (simp add: cloud_size_def)
  have len_m2: "length (entries (means2D a)) = n1 + n2"
    using m2 sp spp by simp
  show ?thesis
    using xyz len_xyz op len_op m2 sp len_m2 cov sr deferred local
    by blast
qed

lemma demo_per_primitive:
  "\<forall>S v. length S = length v \<longrightarrow>
     eval_sh (demo_runtime_dir True) (active_sh_degree demo_pc) S v = Inr (map2 demo_shade S v)"
  by (simp add: demo_runtime_dir_def demo_eval_sh_dir_def)

theorem merged_tensors_concatenate_witness:
  "cloud_size 1 demo_pc 1 \<and> cloud_size 1 demo_prePC 2 \<and>
   features_shaped demo_pc \<and> features_shaped demo_prePC \<and>
   (\<exists>a. rasterizer_inputs (demo_runtime True) demo_camera demo_pc demo_prePC
           (demo_pipe False False) 1 None = Inr a \<and>
        means3D a = [[1, 0, 0], [0, 2, 0], [0, 0, -1]] \<and> length (means3D a) = 1 + 2 \<and>
        opacities a = [[2], [1], [0]] \<and> length (entries (means2D a)) = 1 + 2 \<and>
        scales a = Some [[1, 1, 1], [2, 2, 2], [3, 3, 3]] \<and>
        rotations a = Some [[1, 0, 0, 0], [0, 1, 0, 0], [0, 0, 1, 0]] \<and>
        shs a = Some [[[1, 2, 3]], [[4, 5, 6]], [[7, 8, 9]]]) \<and>
   (\<exists>b. rasterizer_inputs (demo_runtime_dir True) demo_camera demo_pc demo_prePC
           (demo_pipe True True) 1 None = Inr b \<and>
        cov3D_precomp b = Some [[1, 0, 0, 1, 0, 1], [2, 0, 0, 2, 0, 2], [3, 0, 0, 3, 0, 3]] \<and>
        shs_view demo_pc demo_prePC
          = Inr (transpose_1_2 (get_features demo_pc) @ transpose_1_2 (get_features demo_prePC)) \<and>
        length (transpose_1_2 (get_features demo_pc) @ transpose_1_2 (get_features demo_prePC))
          = 1 + 2 \<and>
        colors_precomp b = Some [[Num 0, Num 0, Num (1/2)], [Num (3/2), Num (7/2), Num (7/2)],
                                 [NaN, NaN, NaN]] \<and>
        length (the (colors_precomp b)) = 1 + 2)"
proof -
  obtain a where a: "rasterizer_inputs (demo_runtime True) demo_camera demo_pc demo_prePC
           (demo_pipe False False) 1 None = Inr a"
    by (simp add: demo_deferred)
  obtain b where b: "rasterizer_inputs (demo_runtime_dir True) demo_camera demo_pc demo_prePC
           (demo_pipe True True) 1 None = Inr b"
    by (simp add: demo_local_dir)
  note ta = merged_tensors_concatenate [OF a demo_sizes]
  note tb = merged_tensors_concatenate [OF b demo_sizes, of demo_shade]
  have va: "means3D a = [[1, 0, 0], [0, 2, 0], [0, 0, -1]] \<and> opacities a = [[2], [1], [0]] \<and>
        scales a = Some [[1, 1, 1], [2, 2, 2], [3, 3, 3]] \<and>
        rotations a = Some [[1, 0, 0, 0], [0, 1, 0, 0], [0, 0, 1, 0]] \<and>
        shs a = Some [[[1, 2, 3]], [[4, 5, 6]], [[7, 8, 9]]]"
    using a by (auto simp: demo_deferred)
  have la: "length (means3D a) = 1 + 2" "length (entries (means2D a)) = 1 + 2"
    using ta by blast+
  have vb: "cov3D_precomp b = Some [[1, 0, 0, 1, 0, 1], [2, 0, 0, 2, 0, 2], [3, 0, 0, 3, 0, 3]] \<and>
        colors_precomp b = Some [[Num 0, Num 0, Num (1/2)], [Num (3/2), Num (7/2), Num (7/2)],
                                 [NaN, NaN, NaN]]"
    using b by (auto simp: demo_local_dir)
  have mode: "convert_SHs_python (demo_pipe True True)"
    by (simp add: demo_pipe_def)
  from tb mode demo_features_shaped(1,2) demo_per_primitive
  obtain col where
    sv: "shs_view demo_pc demo_prePC
          = Inr (transpose_1_2 (get_features demo_pc) @ transpose_1_2 (get_features demo_prePC))"
    and ls: "length (transpose_1_2 (get_features demo_pc) @ transpose_1_2 (get_features demo_prePC))
          = 1 + 2"
    and col: "colors_precomp b = Some col" "length col = 1 + 2"
    by blast
  from col have lc: "length (the (colors_precomp b)) = 1 + 2" by simp
  show ?thesis
    using demo_sizes demo_features_shaped(1,2) a b va la vb sv ls lc by blast
qed

section \<open>The geometry inputs\<close>

text \<open>
  C4. With \<^verbatim>\<open>compute_cov3D_python\<close> set, the scales and rotations handed to the rasterizer
  are \<^verbatim>\<open>None\<close> and the covariance is the dynamic cloud's covariance for the scaling
  modifier followed by the secondary cloud's, \<open>n1 + n2\<close> rows; with it unset, the covariance
  is \<^verbatim>\<open>None\<close> and the merged scales and rotations are there. The covariance is there
  exactly when the scales and rotations are not.
\<close>

theorem geometry_representation_exclusive:
  assumes inputs: "rasterizer_inputs ctx cam pc prePC pipe sm oc = Inr a"
  shows "(compute_cov3D_python pipe \<longrightarrow>
       scales a = None \<and> rotations a = None \<and>
       (\<exists>pcCov preCov. get_covariance pc sm = Inr pcCov \<and>
          get_covariance prePC sm = Inr preCov \<and> cov3D_precomp a = Some (pcCov @ preCov) \<and>
          (cloud_size sm pc n1 \<and> cloud_size sm prePC n2 \<longrightarrow>
             length (pcCov @ preCov) = n1 + n2))) \<and>
    (\<not> compute_cov3D_python pipe \<longrightarrow>
       cov3D_precomp a = None \<and>
       scales a = Some (get_scaling pc @ get_scaling prePC) \<and>
       rotations a = Some (get_rotation pc @ get_rotation prePC)) \<and>
    ((cov3D_precomp a \<noteq> None) = (scales a = None \<and> rotations a = None)) \<and>
    ((cov3D_precomp a = None) = (scales a \<noteq> None \<and> rotations a \<noteq> None))"
proof (cases "compute_cov3D_python pipe")
  case True
  from merged_geometry_cov [OF rasterizer_inputs_Inr(4) [OF inputs] True]
  obtain c1 c2 where c: "scales a = None" "rotations a = None"
    "get_covariance pc sm = Inr c1" "get_covariance prePC sm = Inr c2"
    "cov3D_precomp a = Some (c1 @ c2)" by blast
  have "length (c1 @ c2) = n1 + n2" if "cloud_size sm pc n1" "cloud_size sm prePC n2"
    using that c(3,4) by (simp add: cloud_size_def)
  with c True show ?thesis by auto
next
  case False
  from merged_geometry_scale_rot [OF rasterizer_inputs_Inr(4) [OF inputs] False] False
  show ?thesis by simp
qed

theorem geometry_representation_exclusive_witness:
  "(\<exists>a. rasterizer_inputs (demo_runtime True) demo_camera demo_pc demo_prePC
           (demo_pipe True True) 1 None = Inr a \<and>
        compute_cov3D_python (demo_pipe True True) \<and>
        scales a = None \<and> rotations a = None \<and>
        cov3D_precomp a = Some [[1, 0, 0, 1, 0, 1], [2, 0, 0, 2, 0, 2], [3, 0, 0, 3, 0, 3]]) \<and>
   (\<exists>a. rasterizer_inputs (demo_runtime True) demo_camera demo_pc demo_prePC
           (demo_pipe False False) 1 None = Inr a \<and>
        \<not> compute_cov3D_python (demo_pipe False False) \<and>
        cov3D_precomp a = None \<and>
        scales a = Some [[1, 1, 1], [2, 2, 2], [3, 3, 3]] \<and>
        rotations a = Some [[1, 0, 0, 0], [0, 1, 0, 0], [0, 0, 1, 0]])"
  using geometry_representation_exclusive [OF demo_local, of 1 2]
    geometry_representation_exclusive [OF demo_deferred, of 1 2]
  unfolding demo_local demo_deferred
  by (simp add: demo_pipe_def)

section \<open>The colour inputs\<close>

subsection \<open>Normalised directions\<close>








lemma demo_directions:
  "dir_pp_normalized demo_camera demo_pc demo_prePC
   = Inr [[Num 1, Num 0, Num 0], [Num 0, Num 1, Num 0], [NaN, NaN, NaN]]"
  by (simp add: demo_defs stage_defs)



lemma demo_positions: "positions_shaped demo_camera demo_pc" "positions_shaped demo_camera demo_prePC"
  by (simp_all add: positions_shaped_def demo_defs)



lemma demo_shs_view:
  "shs_view demo_pc demo_prePC = Inr [[[1], [2], [3]], [[4], [5], [6]], [[7], [8], [9]]]"
  by (simp add: demo_defs stage_defs transpose.simps)

text \<open>
  C3, as it is stated, fails. In the small scene, without an override colour and with
  \<^verbatim>\<open>convert_SHs_python\<close> unset, the SH tensor handed to the rasterizer is not the merged
  reshaped tensor: its matrices are \<open>1 \<times> 3\<close> (coefficient, channel), not \<open>3 \<times> 1\<close>.
\<close>

theorem deferred_shs_reshaped_counterexample:
  "(case rasterizer_inputs (demo_runtime True) demo_camera demo_pc demo_prePC
           (demo_pipe False False) 1 None of
      Inl e \<Rightarrow> None | Inr a \<Rightarrow> shs a) = Some [[[1, 2, 3]], [[4, 5, 6]], [[7, 8, 9]]] \<and>
   (case shs_view demo_pc demo_prePC of Inl e \<Rightarrow> None | Inr S \<Rightarrow> Some S)
     = Some [[[1], [2], [3]], [[4], [5], [6]], [[7], [8], [9]]] \<and>
   (case rasterizer_inputs (demo_runtime True) demo_camera demo_pc demo_prePC
           (demo_pipe False False) 1 None of
      Inl e \<Rightarrow> None | Inr a \<Rightarrow> shs a) \<noteq>
   (case shs_view demo_pc demo_prePC of Inl e \<Rightarrow> None | Inr S \<Rightarrow> Some S) \<and>
   \<not> has_shape3 [[[1, 2, 3]], [[4, 5, 6]], [[7, 8, 9 :: real]]] 3 1"
  by (simp add: demo_deferred demo_shs_view has_shape3_def)

lemma has_shape3_append:
  "has_shape3 (s @ t) c w \<longleftrightarrow> has_shape3 s c w \<and> has_shape3 t c w"
  by (simp add: has_shape3_def)

text \<open>
  C3, amended. Without an override colour and with \<^verbatim>\<open>convert_SHs_python\<close> unset, the SH
  tensor handed to the rasterizer is \<^verbatim>\<open>get_features\<close> of the dynamic cloud followed by
  \<^verbatim>\<open>get_features\<close> of the secondary cloud, neither transposed nor viewed, and there is
  no precomputed colour. It has \<open>n1 + n2\<close> matrices, and when the features of both
  clouds are \<open>c \<times> 3\<close> per primitive, so are the merged ones.
\<close>

theorem deferred_shs_concatenated_as_stored:
  assumes inputs: "rasterizer_inputs ctx cam pc prePC pipe sm None = Inr a"
    and conv: "\<not> convert_SHs_python pipe"
  shows "shs a = Some (get_features pc @ get_features prePC) \<and> colors_precomp a = None \<and>
    (cloud_size sm pc n1 \<and> cloud_size sm prePC n2 \<longrightarrow>
       length (get_features pc @ get_features prePC) = n1 + n2) \<and>
    (has_shape3 (get_features pc) c 3 \<and> has_shape3 (get_features prePC) c 3 \<longrightarrow>
       has_shape3 (get_features pc @ get_features prePC) c 3)"
  using merged_colour_deferred [OF rasterizer_inputs_Inr(5) [OF inputs] conv]
  by (simp add: cloud_size_def has_shape3_append)

theorem deferred_shs_concatenated_as_stored_witness:
  "\<not> convert_SHs_python (demo_pipe False False) \<and>
   cloud_size 1 demo_pc 1 \<and> cloud_size 1 demo_prePC 2 \<and>
   has_shape3 (get_features demo_pc) 1 3 \<and> has_shape3 (get_features demo_prePC) 1 3 \<and>
   (\<exists>a. rasterizer_inputs (demo_runtime True) demo_camera demo_pc demo_prePC
           (demo_pipe False False) 1 None = Inr a \<and>
        shs a = Some (get_features demo_pc @ get_features demo_prePC) \<and>
        colors_precomp a = None \<and>
        length (get_features demo_pc @ get_features demo_prePC) = 1 + 2 \<and>
        has_shape3 (get_features demo_pc @ get_features demo_prePC) 1 3)"
proof -
  have c: "\<not> convert_SHs_python (demo_pipe False False)"
    by (simp add: demo_pipe_def)
  have sh: "has_shape3 (get_features demo_pc) 1 3" "has_shape3 (get_features demo_prePC) 1 3"
    by (simp_all add: has_shape3_def demo_defs)
  from deferred_shs_concatenated_as_stored [OF demo_deferred c, of 1 2 1] demo_sizes sh
  have "shs \<lparr>means3D = [[1, 0, 0], [0, 2, 0], [0, 0, -1]],
          means2D = \<lparr>entries = [[0, 0, 0], [0, 0, 0], [0, 0, 0]], requires_grad = True,
                     is_leaf = False, retains_grad = False\<rparr>,
          shs = Some [[[1, 2, 3]], [[4, 5, 6]], [[7, 8, 9]]],
          colors_precomp = None,
          opacities = [[2], [1], [0]],
          scales = Some [[1, 1, 1], [2, 2, 2], [3, 3, 3]],
          rotations = Some [[1, 0, 0, 0], [0, 1, 0, 0], [0, 0, 1, 0]],
          cov3D_precomp = None\<rparr> = Some (get_features demo_pc @ get_features demo_prePC)"
    and "length (get_features demo_pc @ get_features demo_prePC) = 1 + 2"
    and "has_shape3 (get_features demo_pc @ get_features demo_prePC) 1 3"
    by blast+
  then show ?thesis
    using c demo_sizes sh unfolding demo_deferred by simp
qed

lemma demo_override:
  "rasterizer_inputs (demo_runtime True) demo_camera demo_pc demo_prePC (demo_pipe True False) 1
     (Some [[Num 1, NaN, Num (-1)]])
   = Inr \<lparr>means3D = [[1, 0, 0], [0, 2, 0], [0, 0, -1]],
          means2D = \<lparr>entries = [[0, 0, 0], [0, 0, 0], [0, 0, 0]], requires_grad = True,
                     is_leaf = False, retains_grad = False\<rparr>,
          shs = None,
          colors_precomp = Some [[Num 1, NaN, Num (-1)]],
          opacities = [[2], [1], [0]],
          scales = Some [[1, 1, 1], [2, 2, 2], [3, 3, 3]],
          rotations = Some [[1, 0, 0, 0], [0, 1, 0, 0], [0, 0, 1, 0]],
          cov3D_precomp = None\<rparr>"
  by (simp add: demo_defs stage_defs)

lemma override_ignores_sh:
  "rasterizer_inputs (ctx\<lparr>eval_sh := ev\<rparr>) cam (pc\<lparr>get_features := f1\<rparr>)
     (prePC\<lparr>get_features := f2\<rparr>) (pipe\<lparr>convert_SHs_python := conv\<rparr>) sm (Some c) =
   rasterizer_inputs ctx cam pc prePC pipe sm (Some c)"
  by (simp add: rasterizer_inputs_def merged_colour_override merged_geometry_def
      screenspace_points_def screenspace_points_pre_def)

text \<open>
  C5. When an override colour is supplied, the colour handed to the rasterizer is the
  override colour as it is and the SH tensor is \<^verbatim>\<open>None\<close>, whatever
  \<^verbatim>\<open>convert_SHs_python\<close> says; the SH features of the clouds and \<^verbatim>\<open>eval_sh\<close> play no
  part: replacing them leaves the rasterizer's arguments as they are.
\<close>

theorem override_colour_unchanged:
  assumes inputs: "rasterizer_inputs ctx cam pc prePC pipe sm (Some c) = Inr a"
  shows "colors_precomp a = Some c \<and> shs a = None \<and>
    (\<forall>conv ev f1 f2.
       rasterizer_inputs (ctx\<lparr>eval_sh := ev\<rparr>) cam (pc\<lparr>get_features := f1\<rparr>)
         (prePC\<lparr>get_features := f2\<rparr>) (pipe\<lparr>convert_SHs_python := conv\<rparr>) sm (Some c) = Inr a)"
proof -
  from rasterizer_inputs_Inr(5) [OF inputs]
  have "Inr (None, Some c) = (Inr (shs a, colors_precomp a) :: error + _)"
    by (simp only: merged_colour_override)
  then have col: "colors_precomp a = Some c" and sh: "shs a = None"
    by simp_all
  have "rasterizer_inputs (ctx\<lparr>eval_sh := ev\<rparr>) cam (pc\<lparr>get_features := f1\<rparr>)
         (prePC\<lparr>get_features := f2\<rparr>) (pipe\<lparr>convert_SHs_python := conv\<rparr>) sm (Some c) = Inr a"
    for conv ev f1 f2
    using inputs by (simp only: override_ignores_sh)
  with col sh show ?thesis by blast
qed

theorem override_colour_unchanged_witness:
  "\<exists>a. rasterizer_inputs (demo_runtime True) demo_camera demo_pc demo_prePC (demo_pipe True False)
          1 (Some [[Num 1, NaN, Num (-1)]]) = Inr a \<and>
       colors_precomp a = Some [[Num 1, NaN, Num (-1)]] \<and> shs a = None \<and>
       rasterizer_inputs (demo_runtime True) demo_camera (demo_pc\<lparr>get_features := []\<rparr>)
         (demo_prePC\<lparr>get_features := [[[0]]]\<rparr>) (demo_pipe False False)
          1 (Some [[Num 1, NaN, Num (-1)]]) = Inr a"
proof -
  from override_colour_unchanged [OF demo_override]
  have "rasterizer_inputs ((demo_runtime True)\<lparr>eval_sh := demo_eval_sh\<rparr>) demo_camera
          (demo_pc\<lparr>get_features := []\<rparr>) (demo_prePC\<lparr>get_features := [[[0]]]\<rparr>)
          ((demo_pipe True False)\<lparr>convert_SHs_python := False\<rparr>)
          1 (Some [[Num 1, NaN, Num (-1)]]) =
        rasterizer_inputs (demo_runtime True) demo_camera demo_pc demo_prePC (demo_pipe True False)
          1 (Some [[Num 1, NaN, Num (-1)]])"
    unfolding demo_override by blast
  moreover have "(demo_runtime True)\<lparr>eval_sh := demo_eval_sh\<rparr> = demo_runtime True"
    "(demo_pipe True False)\<lparr>convert_SHs_python := False\<rparr> = demo_pipe False False"
    by (simp_all add: demo_runtime_def demo_pipe_def)
  ultimately show ?thesis
    unfolding demo_override by simp
qed

text \<open>
  C6. Exactly one of the rasterizer's \<^verbatim>\<open>shs\<close> and \<^verbatim>\<open>colors_precomp\<close> is not
  \<^verbatim>\<open>None\<close>: the override colour when one is supplied; otherwise the locally evaluated
  colour when \<^verbatim>\<open>convert_SHs_python\<close> is set, and the raw merged SH tensor when it is not.
\<close>

theorem exactly_one_colour_input:
  assumes inputs: "rasterizer_inputs ctx cam pc prePC pipe sm oc = Inr a"
  shows "((shs a = None) \<noteq> (colors_precomp a = None)) \<and>
    (oc \<noteq> None \<longrightarrow> colors_precomp a = oc \<and> shs a = None) \<and>
    (oc = None \<and> convert_SHs_python pipe \<longrightarrow>
       shs a = None \<and>
       (\<exists>S v sh2rgb. shs_view pc prePC = Inr S \<and> dir_pp_normalized cam pc prePC = Inr v \<and>
          eval_sh ctx (active_sh_degree pc) S v = Inr sh2rgb \<and>
          colors_precomp a = Some (map (map (\<lambda>x. clamp_min (scalar_add x 0.5) 0)) sh2rgb))) \<and>
    (oc = None \<and> \<not> convert_SHs_python pipe \<longrightarrow>
       colors_precomp a = None \<and> shs a = Some (get_features pc @ get_features prePC))"
proof (cases oc)
  case (Some c)
  from rasterizer_inputs_Inr(5) [OF inputs]
  have "Inr (None, Some c) = (Inr (shs a, colors_precomp a) :: error + _)"
    by (simp only: Some merged_colour_override)
  then have "colors_precomp a = Some c" "shs a = None"
    by simp_all
  with Some show ?thesis by simp
next
  case None
  note col = rasterizer_inputs_Inr(5) [OF inputs, unfolded None]
  show ?thesis
  proof (cases "convert_SHs_python pipe")
    case True
    from merged_colour_local [OF col True] None True show ?thesis by auto
  next
    case False
    from merged_colour_deferred [OF col False] None False show ?thesis by simp
  qed
qed

theorem exactly_one_colour_input_witness:
  "(\<exists>a. rasterizer_inputs (demo_runtime True) demo_camera demo_pc demo_prePC
           (demo_pipe True False) 1 (Some [[Num 1, NaN, Num (-1)]]) = Inr a \<and>
        shs a = None \<and> colors_precomp a = Some [[Num 1, NaN, Num (-1)]]) \<and>
   (\<exists>a. rasterizer_inputs (demo_runtime True) demo_camera demo_pc demo_prePC
           (demo_pipe True True) 1 None = Inr a \<and>
        shs a = None \<and>
        colors_precomp a = Some [[Num 0, Num 0, Num (1/2)], [Num (3/2), Num (5/2), Num (7/2)],
                                 [Num (9/2), Num (11/2), Num (13/2)]]) \<and>
   (\<exists>a. rasterizer_inputs (demo_runtime True) demo_camera demo_pc demo_prePC
           (demo_pipe False False) 1 None = Inr a \<and>
        shs a = Some [[[1, 2, 3]], [[4, 5, 6]], [[7, 8, 9]]] \<and> colors_precomp a = None)"
  using exactly_one_colour_input [OF demo_override] exactly_one_colour_input [OF demo_local]
    exactly_one_colour_input [OF demo_deferred]
  unfolding demo_override demo_local demo_deferred
  by simp

lemma demo_directions_of_stored:
  "map normalize_row (map (\<lambda>p. map2 (-) p (camera_center demo_camera))
      (raw_xyz demo_pc @ raw_xyz demo_prePC))
   = [[Num 1, Num 0, Num 0], [Num 0, Num 1, Num 0], [Num 0, Num 0, Num (-1)]]"
  by (simp add: demo_defs normalize_row_def norm_row_def)

section \<open>Stored fields and accessors\<close>

text \<open>
  C10. The positions and opacities handed to the rasterizer are the stored fields
  \<^verbatim>\<open>_xyz\<close> and \<^verbatim>\<open>_opacity\<close> of the two clouds, merged, with no activation applied; they
  do not change when \<^verbatim>\<open>get_xyz\<close> does. The screen-space placeholders and the directions
  of the local evaluation are built from \<^verbatim>\<open>get_xyz\<close>. In the small scene the secondary
  cloud's \<^verbatim>\<open>get_xyz\<close> differs from its \<^verbatim>\<open>_xyz\<close>, and the directions used for shading
  differ from the directions of the rasterized positions.
\<close>

theorem stored_fields_rasterized_accessor_shaded:
  assumes inputs: "rasterizer_inputs ctx cam pc prePC pipe sm oc = Inr a"
  shows "means3D a = raw_xyz pc @ raw_xyz prePC \<and>
    opacities a = raw_opacity pc @ raw_opacity prePC \<and>
    entries (means2D a) =
      map (map (\<lambda>_. 0)) (get_xyz pc) @ map (map (\<lambda>_. 0)) (get_xyz prePC) \<and>
    (oc = None \<and> convert_SHs_python pipe \<longrightarrow>
       (\<exists>pc_dir_pp pre_dir_pp S sh2rgb.
          dir_pp_of cam pc = Inr pc_dir_pp \<and> dir_pp_of cam prePC = Inr pre_dir_pp \<and>
          (positions_shaped cam pc \<longrightarrow>
             pc_dir_pp = map (\<lambda>p. map2 (-) p (camera_center cam)) (get_xyz pc)) \<and>
          (positions_shaped cam prePC \<longrightarrow>
             pre_dir_pp = map (\<lambda>p. map2 (-) p (camera_center cam)) (get_xyz prePC)) \<and>
          eval_sh ctx (active_sh_degree pc) S (map normalize_row (pc_dir_pp @ pre_dir_pp))
            = Inr sh2rgb \<and>
          colors_precomp a = Some (map (map (\<lambda>x. clamp_min (scalar_add x 0.5) 0)) sh2rgb))) \<and>
    (\<forall>x1 x2. (\<exists>a'. rasterizer_inputs ctx cam (pc\<lparr>get_xyz := x1\<rparr>) (prePC\<lparr>get_xyz := x2\<rparr>)
                  pipe sm oc = Inr a') \<longrightarrow>
       (\<exists>a'. rasterizer_inputs ctx cam (pc\<lparr>get_xyz := x1\<rparr>) (prePC\<lparr>get_xyz := x2\<rparr>)
                  pipe sm oc = Inr a' \<and> means3D a' = means3D a \<and> opacities a' = opacities a))"
proof -
  note st = rasterizer_inputs_Inr [OF inputs]
  have xyz: "means3D a = raw_xyz pc @ raw_xyz prePC"
    using st(1) by (rule cat_Inr)
  have op: "opacities a = raw_opacity pc @ raw_opacity prePC"
    using st(2) by (rule cat_Inr)
  have m2: "entries (means2D a) =
      map (map (\<lambda>_. 0)) (get_xyz pc) @ map (map (\<lambda>_. 0)) (get_xyz prePC)"
    using cat_grad_Inr [OF st(3)]
    by (simp add: screenspace_points_entries screenspace_points_pre_entries)
  have local: "\<exists>pc_dir_pp pre_dir_pp S sh2rgb.
          dir_pp_of cam pc = Inr pc_dir_pp \<and> dir_pp_of cam prePC = Inr pre_dir_pp \<and>
          (positions_shaped cam pc \<longrightarrow>
             pc_dir_pp = map (\<lambda>p. map2 (-) p (camera_center cam)) (get_xyz pc)) \<and>
          (positions_shaped cam prePC \<longrightarrow>
             pre_dir_pp = map (\<lambda>p. map2 (-) p (camera_center cam)) (get_xyz prePC)) \<and>
          eval_sh ctx (active_sh_degree pc) S (map normalize_row (pc_dir_pp @ pre_dir_pp))
            = Inr sh2rgb \<and>
          colors_precomp a = Some (map (map (\<lambda>x. clamp_min (scalar_add x 0.5) 0)) sh2rgb)"
    if "oc = None" "convert_SHs_python pipe"
  proof -
    from merged_colour_local [OF st(5) [unfolded that(1)] that(2)]
    obtain S v c where l: "dir_pp_normalized cam pc prePC = Inr v"
      "eval_sh ctx (active_sh_degree pc) S v = Inr c"
      "colors_precomp a = Some (map (map (\<lambda>x. clamp_min (scalar_add x 0.5) 0)) c)"
      by blast
    from dir_pp_normalized_Inr [OF l(1)] obtain d1 d2 where
      d: "dir_pp_of cam pc = Inr d1" "dir_pp_of cam prePC = Inr d2"
      "v = map normalize_row (d1 @ d2)" by blast
    have p1: "d1 = map (\<lambda>p. map2 (-) p (camera_center cam)) (get_xyz pc)"
      if "positions_shaped cam pc"
      using dir_pp_of_shaped [OF that] d(1) by simp
    have p2: "d2 = map (\<lambda>p. map2 (-) p (camera_center cam)) (get_xyz prePC)"
      if "positions_shaped cam prePC"
      using dir_pp_of_shaped [OF that] d(2) by simp
    show ?thesis using l(2,3) d p1 p2 by blast
  qed
  have indep: "\<exists>a'. rasterizer_inputs ctx cam (pc\<lparr>get_xyz := x1\<rparr>) (prePC\<lparr>get_xyz := x2\<rparr>)
                  pipe sm oc = Inr a' \<and> means3D a' = means3D a \<and> opacities a' = opacities a"
    if "\<exists>a'. rasterizer_inputs ctx cam (pc\<lparr>get_xyz := x1\<rparr>) (prePC\<lparr>get_xyz := x2\<rparr>)
                  pipe sm oc = Inr a'" for x1 x2
  proof -
    from that obtain a' where a': "rasterizer_inputs ctx cam (pc\<lparr>get_xyz := x1\<rparr>)
        (prePC\<lparr>get_xyz := x2\<rparr>) pipe sm oc = Inr a'" by blast
    from rasterizer_inputs_Inr(1,2) [OF a'] have "means3D a' = raw_xyz pc @ raw_xyz prePC"
      "opacities a' = raw_opacity pc @ raw_opacity prePC"
      by (auto dest: cat_Inr)
    with a' xyz op show ?thesis by simp
  qed
  show ?thesis
    using xyz op m2 local indep by blast
qed

theorem stored_fields_rasterized_accessor_shaded_witness:
  "positions_shaped demo_camera demo_pc \<and> positions_shaped demo_camera demo_prePC \<and>
   convert_SHs_python (demo_pipe True True) \<and>
   (\<exists>a. rasterizer_inputs (demo_runtime True) demo_camera demo_pc demo_prePC
           (demo_pipe True True) 1 None = Inr a \<and>
        means3D a = [[1, 0, 0], [0, 2, 0], [0, 0, -1]] \<and>
        opacities a = [[2], [1], [0]] \<and>
        entries (means2D a) = [[0, 0, 0], [0, 0, 0], [0, 0, 0]]) \<and>
   get_xyz demo_prePC = [[0, 1, 0], [0, 0, 0]] \<and>
   dir_pp_normalized demo_camera demo_pc demo_prePC
     = Inr [[Num 1, Num 0, Num 0], [Num 0, Num 1, Num 0], [NaN, NaN, NaN]] \<and>
   map normalize_row (map (\<lambda>p. map2 (-) p (camera_center demo_camera))
      (raw_xyz demo_pc @ raw_xyz demo_prePC))
     = [[Num 1, Num 0, Num 0], [Num 0, Num 1, Num 0], [Num 0, Num 0, Num (-1)]]"
  using stored_fields_rasterized_accessor_shaded [OF demo_local] demo_positions
    demo_directions demo_directions_of_stored
  unfolding demo_local
  by (simp add: demo_pipe_def demo_prePC_def)

section \<open>The returned dictionary\<close>

lemma render_Inr:
  assumes "render ctx cam pc prePC pipe bgc sm oc = Inr r"
  shows "\<exists>a img rad. rasterizer_inputs ctx cam pc prePC pipe sm oc = Inr a \<and>
     rasterizer ctx (raster_settings cam pc pipe bgc sm) a = Inr (img, rad) \<and>
     r = \<lparr>rendered_image = img, viewspace_points = fst (screenspace_points ctx pc),
          visibility_filter = map (\<lambda>x. 0 < x) rad, radii = rad\<rparr>"
  using assms
  by (auto simp: render_def render_steps_def Let_def split: prod.splits sum.splits)




lemma demo_render:
  "render_steps (demo_runtime True) demo_camera demo_pc demo_prePC (demo_pipe False False)
     [0, 0, 0] 1 None
   = ([RetainGrad True, Rasterize],
      Inr \<lparr>rendered_image = [],
           viewspace_points = \<lparr>entries = [[0, 0, 0]], requires_grad = True, is_leaf = False,
                                retains_grad = True\<rparr>,
           visibility_filter = [True, True, False], radii = [2, 2, 0]\<rparr>)"
  by (simp add: render_steps_def demo_deferred)
    (simp add: demo_defs screenspace_points_def add_const_def zeros_like_def retain_grad_def)



text \<open>
  C7. The visibility filter that \<^verbatim>\<open>render\<close> returns is the radii of the rasterizer compared
  with 0, entry by entry: \<open>visibility_filter[i] = (radii[i] > 0)\<close>. It is as long as the radii,
  which is \<open>n1 + n2\<close> when the rasterizer returns one radius per merged primitive.
\<close>

theorem visibility_filter_positive_radius:
  assumes ret: "render ctx cam pc prePC pipe bg_color sm oc = Inr r"
  shows "visibility_filter r = map (\<lambda>x. 0 < x) (radii r) \<and>
    length (visibility_filter r) = length (radii r) \<and>
    (\<forall>i < length (radii r). visibility_filter r ! i = (0 < radii r ! i)) \<and>
    (\<exists>a img. rasterizer_inputs ctx cam pc prePC pipe sm oc = Inr a \<and>
       rasterizer ctx (raster_settings cam pc pipe bg_color sm) a = Inr (img, radii r) \<and>
       (cloud_size sm pc n1 \<and> cloud_size sm prePC n2 \<and>
        length (radii r) = length (means3D a) \<longrightarrow>
          length (visibility_filter r) = n1 + n2))"
proof -
  from render_Inr [OF ret] obtain a img rad where
    a: "rasterizer_inputs ctx cam pc prePC pipe sm oc = Inr a"
    and rz: "rasterizer ctx (raster_settings cam pc pipe bg_color sm) a = Inr (img, rad)"
    and r: "r = \<lparr>rendered_image = img, viewspace_points = fst (screenspace_points ctx pc),
          visibility_filter = map (\<lambda>x. 0 < x) rad, radii = rad\<rparr>"
    by blast
  have vf: "visibility_filter r = map (\<lambda>x. 0 < x) (radii r)"
    by (simp add: r)
  have m3: "means3D a = raw_xyz pc @ raw_xyz prePC"
    using rasterizer_inputs_Inr(1) [OF a] by (rule cat_Inr)
  have len: "length (visibility_filter r) = n1 + n2"
    if "cloud_size sm pc n1" "cloud_size sm prePC n2" "length (radii r) = length (means3D a)"
    using that m3 vf by (simp add: cloud_size_def)
  have "rasterizer ctx (raster_settings cam pc pipe bg_color sm) a = Inr (img, radii r)"
    using rz by (simp add: r)
  with a len vf show ?thesis by auto
qed

theorem visibility_filter_positive_radius_witness:
  "cloud_size 1 demo_pc 1 \<and> cloud_size 1 demo_prePC 2 \<and>
   (\<exists>r. render (demo_runtime True) demo_camera demo_pc demo_prePC (demo_pipe False False)
          [0, 0, 0] 1 None = Inr r \<and>
        radii r = [2, 2, 0] \<and> visibility_filter r = [True, True, False] \<and>
        length (visibility_filter r) = 1 + 2)"
proof -
  have r: "render (demo_runtime True) demo_camera demo_pc demo_prePC (demo_pipe False False)
          [0, 0, 0] 1 None =
      Inr \<lparr>rendered_image = [],
           viewspace_points = \<lparr>entries = [[0, 0, 0]], requires_grad = True, is_leaf = False,
                                retains_grad = True\<rparr>,
           visibility_filter = [True, True, False], radii = [2, 2, 0]\<rparr>"
    by (simp add: render_def demo_render)
  from visibility_filter_positive_radius [OF r, of 1 2]
  have "visibility_filter \<lparr>rendered_image = [],
           viewspace_points = \<lparr>entries = [[0, 0, 0]], requires_grad = True, is_leaf = False,
                                retains_grad = True\<rparr>,
           visibility_filter = [True, True, False], radii = [2, 2, 0]\<rparr> =
        map (\<lambda>x. 0 < x) [2, 2, 0 :: int]"
    by simp
  then show ?thesis
    using demo_sizes unfolding r by simp
qed

text \<open>
  C8. The \<^verbatim>\<open>viewspace_points\<close> that \<^verbatim>\<open>render\<close> returns is the dynamic cloud's
  placeholder: zeros shaped like the dynamic cloud's \<^verbatim>\<open>get_xyz\<close>, \<open>n1\<close> rows, and not the
  merged placeholder of \<open>n1 + n2\<close> rows handed to the rasterizer, of which it is the first
  part. It is the same for every secondary cloud.
\<close>

theorem viewspace_points_dynamic_only:
  assumes ret: "render ctx cam pc prePC pipe bg_color sm oc = Inr r"
  shows "viewspace_points r = fst (screenspace_points ctx pc) \<and>
    entries (viewspace_points r) = map (map (\<lambda>_. 0)) (get_xyz pc) \<and>
    length (entries (viewspace_points r)) = length (get_xyz pc) \<and>
    (cloud_size sm pc n1 \<longrightarrow> length (entries (viewspace_points r)) = n1) \<and>
    (\<exists>a. rasterizer_inputs ctx cam pc prePC pipe sm oc = Inr a \<and>
       entries (means2D a) =
         entries (viewspace_points r) @ map (map (\<lambda>_. 0)) (get_xyz prePC) \<and>
       (cloud_size sm pc n1 \<and> cloud_size sm prePC n2 \<longrightarrow>
          length (entries (means2D a)) = n1 + n2)) \<and>
    (\<forall>prePC' r'. render ctx cam pc prePC' pipe bg_color sm oc = Inr r' \<longrightarrow>
       viewspace_points r' = viewspace_points r)"
proof -
  from render_Inr [OF ret] obtain a img rad where
    a: "rasterizer_inputs ctx cam pc prePC pipe sm oc = Inr a"
    and r: "r = \<lparr>rendered_image = img, viewspace_points = fst (screenspace_points ctx pc),
          visibility_filter = map (\<lambda>x. 0 < x) rad, radii = rad\<rparr>"
    by blast
  have vp: "viewspace_points r = fst (screenspace_points ctx pc)"
    by (simp add: r)
  have en: "entries (viewspace_points r) = map (map (\<lambda>_. 0)) (get_xyz pc)"
    by (simp add: vp screenspace_points_entries)
  have m2: "entries (means2D a) =
      entries (viewspace_points r) @ map (map (\<lambda>_. 0)) (get_xyz prePC)"
    using cat_grad_Inr [OF rasterizer_inputs_Inr(3) [OF a]]
    by (simp add: vp screenspace_points_pre_entries)
  have other: "viewspace_points r' = viewspace_points r"
    if "render ctx cam pc prePC' pipe bg_color sm oc = Inr r'" for prePC' r'
    using render_Inr [OF that] vp by auto
  have l1: "length (entries (viewspace_points r)) = n1" if "cloud_size sm pc n1"
    using that en by (simp add: cloud_size_def)
  have l2: "length (entries (means2D a)) = n1 + n2"
    if "cloud_size sm pc n1" "cloud_size sm prePC n2"
    using that m2 en by (simp add: cloud_size_def)
  have l0: "length (entries (viewspace_points r)) = length (get_xyz pc)"
    by (simp add: en)
  show ?thesis
    using vp en l0 l1 a m2 l2 other by blast
qed

theorem viewspace_points_dynamic_only_witness:
  "cloud_size 1 demo_pc 1 \<and> cloud_size 1 demo_prePC 2 \<and>
   (\<exists>r. render (demo_runtime True) demo_camera demo_pc demo_prePC (demo_pipe False False)
          [0, 0, 0] 1 None = Inr r \<and>
        entries (viewspace_points r) = [[0, 0, 0]] \<and>
        length (entries (viewspace_points r)) = 1)"
proof -
  have r: "render (demo_runtime True) demo_camera demo_pc demo_prePC (demo_pipe False False)
          [0, 0, 0] 1 None =
      Inr \<lparr>rendered_image = [],
           viewspace_points = \<lparr>entries = [[0, 0, 0]], requires_grad = True, is_leaf = False,
                                retains_grad = True\<rparr>,
           visibility_filter = [True, True, False], radii = [2, 2, 0]\<rparr>"
    by (simp add: render_def demo_render)
  from viewspace_points_dynamic_only [OF r, of 1 2] demo_sizes(1)
  have "length (entries (viewspace_points \<lparr>rendered_image = [],
           viewspace_points = \<lparr>entries = [[0, 0, 0]], requires_grad = True, is_leaf = False,
                                retains_grad = True\<rparr>,
           visibility_filter = [True, True, False], radii = [2, 2, 0 :: int]\<rparr>)) = 1"
    by blast
  then show ?thesis
    using demo_sizes unfolding r by simp
qed

section \<open>Gradient retention\<close>




end
